theory Spec2Isabelle
  imports Main "HOL-Library.Char_ord" "HOL-Library.List_Lexorder"
begin

section \<open>Python strings\<close>

text \<open>
  A Python \<^verbatim>\<open>str\<close> is a sequence of code points. The model has the code points below
  256: a \<^typ>\<open>char\<close> is read as the code point \<^term>\<open>of_char c :: nat\<close>. The three
  character classes below are Python's \<^verbatim>\<open>str.isspace\<close>, \<^verbatim>\<open>str.isdigit\<close> and
  \<^verbatim>\<open>str.isprintable\<close> on that range.
\<close>

definition py_isspace :: "char \<Rightarrow> bool" where
  "py_isspace c =
     (let n = (of_char c :: nat)
      in (9 \<le> n \<and> n \<le> 13) \<or> (28 \<le> n \<and> n \<le> 32) \<or> n = 133 \<or> n = 160)"

definition py_isdigit :: "char \<Rightarrow> bool" where
  "py_isdigit c =
     (let n = (of_char c :: nat)
      in (48 \<le> n \<and> n \<le> 57) \<or> n = 178 \<or> n = 179 \<or> n = 185)"

definition py_isprintable :: "char \<Rightarrow> bool" where
  "py_isprintable c =
     (let n = (of_char c :: nat)
      in (32 \<le> n \<and> n \<le> 126) \<or> (161 \<le> n \<and> n \<noteq> 173))"

text \<open>\<^verbatim>\<open>s.strip()\<close>: leading and trailing whitespace removed.\<close>

definition py_strip :: "string \<Rightarrow> string" where
  "py_strip s = rev (dropWhile py_isspace (rev (dropWhile py_isspace s)))"

text \<open>
  Cutting a string at every character that satisfies \<open>p\<close>. Every such character ends one
  piece and starts the next, so two in a row give an empty piece, and the empty string
  gives one empty piece.
\<close>

fun split_at :: "(char \<Rightarrow> bool) \<Rightarrow> string \<Rightarrow> string list" where
  "split_at p [] = [[]]"
| "split_at p (c # cs) =
     (if p c then [] # split_at p cs
      else (case split_at p cs of [] \<Rightarrow> [[c]] | t # ts \<Rightarrow> (c # t) # ts))"

text \<open>\<^verbatim>\<open>s.split(sep)\<close> for a separator of one character, as in \<^verbatim>\<open>split(" ")\<close>.\<close>

definition py_split :: "char \<Rightarrow> string \<Rightarrow> string list" where
  "py_split sep s = split_at (\<lambda>c. c = sep) s"

text \<open>
  The tokens of section 4.1, rule 1, read by its words ("split the trimmed line on
  whitespace into tokens"): the maximal runs of characters that are not whitespace. This
  definition follows the specification, not the source; it is what \<^verbatim>\<open>s.split()\<close>
  returns.
\<close>

definition whitespace_tokens :: "string \<Rightarrow> string list" where
  "whitespace_tokens s = filter (\<lambda>t. t \<noteq> []) (split_at py_isspace s)"

text \<open>\<^verbatim>\<open>s.replace(old, new)\<close> for \<open>old\<close> and \<open>new\<close> of one character each.\<close>

fun py_replace :: "char \<Rightarrow> char \<Rightarrow> string \<Rightarrow> string" where
  "py_replace old new [] = []"
| "py_replace old new (c # cs) = (if c = old then new else c) # py_replace old new cs"

text \<open>
  \<^verbatim>\<open>repr(s)\<close> of a string: single quotes, unless the string has a single quote and no
  double quote; the quote and the backslash are escaped, tab, newline and carriage return
  are written with their letters, any other character that is not printable as
  \<^verbatim>\<open>\xhh\<close>.
\<close>

definition hex_digit :: "nat \<Rightarrow> char" where
  "hex_digit n = ''0123456789abcdef'' ! (n mod 16)"

definition py_repr_char :: "char \<Rightarrow> char \<Rightarrow> string" where
  "py_repr_char quote c =
     (if c = quote \<or> c = CHR 0x5C then [CHR 0x5C, c]
      else if c = CHR 0x09 then [CHR 0x5C, CHR ''t'']
      else if c = CHR 0x0A then [CHR 0x5C, CHR ''n'']
      else if c = CHR 0x0D then [CHR 0x5C, CHR ''r'']
      else if \<not> py_isprintable c
        then [CHR 0x5C, CHR ''x'', hex_digit (of_char c div 16), hex_digit (of_char c mod 16)]
      else [c])"

definition py_repr :: "string \<Rightarrow> string" where
  "py_repr s =
     (let quote = (if CHR 0x27 \<in> set s \<and> CHR 0x22 \<notin> set s then CHR 0x22 else CHR 0x27)
      in [quote] @ concat (map (py_repr_char quote) s) @ [quote])"

fun join :: "string \<Rightarrow> string list \<Rightarrow> string" where
  "join sep [] = []"
| "join sep [x] = x"
| "join sep (x # y # ys) = x @ sep @ join sep (y # ys)"

text \<open>\<^verbatim>\<open>str(xs)\<close> of a list of strings: the \<^verbatim>\<open>repr\<close> of each, in brackets.\<close>

definition py_str_list :: "string list \<Rightarrow> string" where
  "py_str_list xs = ''['' @ join '', '' (map py_repr xs) @ '']''"

text \<open>
  \<^verbatim>\<open>int(ds)\<close> on a string of \<^verbatim>\<open>isdigit\<close> characters: \<open>None\<close> is the ValueError, raised
  for the empty string, for a digit that is not decimal (a superscript digit) and for a
  string of more than 4300 digits (the default limit of the conversion).
\<close>

definition py_isdecimal :: "char \<Rightarrow> bool" where
  "py_isdecimal c = (let n = (of_char c :: nat) in 48 \<le> n \<and> n \<le> 57)"

definition py_int :: "string \<Rightarrow> nat option" where
  "py_int ds =
     (if ds \<noteq> [] \<and> list_all py_isdecimal ds \<and> length ds \<le> 4300
      then Some (foldl (\<lambda>n c. 10 * n + (of_char c - 48)) 0 ds)
      else None)"

section \<open>The line parser of the batch loop\<close>

text \<open>
  The variable \<^verbatim>\<open>url\<close> of \<^verbatim>\<open>download_youtube_videos_from_file\<close> first holds the list
  of tokens and is then reassigned to a single token (\<^verbatim>\<open>url = url[1]\<close>): a value of
  either type, with \<^verbatim>\<open>len\<close>, indexing and \<^verbatim>\<open>str\<close> as Python has them on each.
\<close>

datatype url_value = Tokens "string list" | Str string

fun py_len :: "url_value \<Rightarrow> nat" where
  "py_len (Tokens ts) = length ts"
| "py_len (Str s) = length s"

text \<open>\<^verbatim>\<open>url[i]\<close>, used by the source only under a check of \<^verbatim>\<open>len(url)\<close>.\<close>

fun py_item :: "url_value \<Rightarrow> nat \<Rightarrow> string" where
  "py_item (Tokens ts) i = ts ! i"
| "py_item (Str s) i = [s ! i]"

fun py_str :: "url_value \<Rightarrow> string" where
  "py_str (Tokens ts) = py_str_list ts"
| "py_str (Str s) = s"

text \<open>
  The four \<^verbatim>\<open>continue\<close> statements of the loop print the same message; the model
  records which one ran: \<open>NoTokens\<close> (\<^verbatim>\<open>if not url\<close>), \<open>TooManyTokens\<close>
  (\<^verbatim>\<open>len(url) > 2\<close>), \<open>FlagNotA\<close> (the \<^verbatim>\<open>else\<close> of \<^verbatim>\<open>url[0] == "a"\<close>) and
  \<open>NotAUrl\<close> (\<^verbatim>\<open>len(url) == 1 and not validators.url(url[0])\<close>).
\<close>

datatype bad_line = NoTokens | TooManyTokens | FlagNotA | NotAUrl

text \<open>
  What the loop body decides before the \<^verbatim>\<open>try\<close>: a bad line, or the two arguments
  \<^verbatim>\<open>str(url)\<close> and \<^verbatim>\<open>audio_only\<close> of the call of \<^verbatim>\<open>download_from_youtube\<close>.
\<close>

datatype parsed = BadLine bad_line | Job string bool

text \<open>The last check of the loop body and the arguments of the call.\<close>

definition check_single :: "(string \<Rightarrow> bool) \<Rightarrow> bool \<Rightarrow> url_value \<Rightarrow> parsed" where
  "check_single valid audio_only url =
     (if py_len url = 1 \<and> \<not> valid (py_item url 0) then BadLine NotAUrl
      else Job (py_str url) audio_only)"

definition parse_line :: "(string \<Rightarrow> bool) \<Rightarrow> string \<Rightarrow> parsed" where
  "parse_line valid line =
     (let url = py_split (CHR '' '') (py_strip line)
      in if url = [] then BadLine NoTokens
         else if length url > 2 then BadLine TooManyTokens
         else if length url = 2 \<and> valid (url ! 1) then
           (if url ! 0 = ''a'' then check_single valid True (Str (url ! 1))
            else BadLine FlagNotA)
         else check_single valid False (Tokens url))"

text \<open>
  The rejection reasons of the specification's data model (section 3), and the reason
  rules 2 to 5 of section 4.1 give to each branch of the source.
\<close>

datatype rejection_reason = MalformedTokenCount | InvalidFlag | InvalidURL

fun spec_reason :: "bad_line \<Rightarrow> rejection_reason" where
  "spec_reason NoTokens = MalformedTokenCount"
| "spec_reason TooManyTokens = MalformedTokenCount"
| "spec_reason FlagNotA = InvalidFlag"
| "spec_reason NotAUrl = InvalidURL"

section \<open>The external collaborators\<close>

text \<open>
  Exceptions are values. \<open>exn_message\<close> is \<^verbatim>\<open>str(e)\<close>, what \<^verbatim>\<open>print(e)\<close> writes.
  \<open>External\<close> is an exception raised inside a library or the operating system (pytube,
  subprocess, os), with its message. All of them are subclasses of \<^verbatim>\<open>Exception\<close>.
\<close>

datatype exn = AttributeError string | TypeError string | External string

fun exn_message :: "exn \<Rightarrow> string" where
  "exn_message (AttributeError m) = m"
| "exn_message (TypeError m) = m"
| "exn_message (External m) = m"

definition none_has_no_attribute :: "string \<Rightarrow> string" where
  "none_has_no_attribute name =
     [CHR 0x27] @ ''NoneType'' @ [CHR 0x27] @ '' object has no attribute ''
       @ [CHR 0x27] @ name @ [CHR 0x27]"

definition none_is_not_iterable :: string where
  "none_is_not_iterable = [CHR 0x27] @ ''NoneType'' @ [CHR 0x27] @ '' object is not iterable''"

text \<open>
  What reading a text stream line by line gives (the input file, or the output of the
  child process): the lines in order, until the end of the stream or until a read raises
  (a decoding error, an error of the operating system).
\<close>

datatype reads = End_of_input | Line string reads | Read_raises exn

fun lines_of :: "string list \<Rightarrow> reads" where
  "lines_of [] = End_of_input"
| "lines_of (l # ls) = Line l (lines_of ls)"

fun lines_read :: "reads \<Rightarrow> string list" where
  "lines_read End_of_input = []"
| "lines_read (Line l r) = l # lines_read r"
| "lines_read (Read_raises e) = []"

fun read_error :: "reads \<Rightarrow> exn option" where
  "read_error End_of_input = None"
| "read_error (Line l r) = read_error r"
| "read_error (Read_raises e) = Some e"

text \<open>A pytube stream, with the attributes the program and its queries read.\<close>

record stream =
  itag :: nat
  includes_audio_track :: bool
  includes_video_track :: bool
  abr :: "string option"
  resolution :: "string option"

text \<open>
  What the program does to the world, in order: the text it writes to standard output,
  and its calls of \<^verbatim>\<open>YouTube(url)\<close>, \<^verbatim>\<open>stream.download(filename=...)\<close> (with the
  stream it is called on), \<^verbatim>\<open>subprocess.Popen(command, ...)\<close> and \<^verbatim>\<open>os.remove(path)\<close>.
  \<open>Process_time\<close> is the line the timing decorator prints; the elapsed time in it is a
  float and is left out. Opening and reading the input file are not recorded.
\<close>

datatype event =
    Stdout string
  | YouTube_call string
  | Stream_download stream string
  | Popen_call "string list"
  | Os_remove string
  | Process_time

type_synonym history = "event list"

record datetime =
  year :: nat
  month :: nat
  day :: nat
  hour :: nat
  minute :: nat
  second :: nat

text \<open>
  The object \<^verbatim>\<open>YouTube(url)\<close> returns. pytube fetches lazily: reading \<^verbatim>\<open>yt.title\<close> and
  reading \<^verbatim>\<open>yt.streams\<close> can each raise.
\<close>

record youtube =
  title :: "exn + string"
  streams :: "exn + stream list"

text \<open>
  The environment: every answer of a library, the clock, the network, the child process
  and the file system. Each answer may depend on everything that happened before (the
  history). \<open>open_file\<close> is \<^verbatim>\<open>open(file_path, 'r')\<close>: the exception it raises, or what
  reading the file line by line gives. \<open>subprocess_Popen\<close> answers with the exception of
  a failed spawn, or with what reading the merged output of the process line by line
  gives and the exit status the process ends with.
\<close>

record env =
  validators_url :: "string \<Rightarrow> bool"
  datetime_now :: "history \<Rightarrow> datetime"
  YouTube :: "string \<Rightarrow> history \<Rightarrow> exn + youtube"
  stream_download :: "stream \<Rightarrow> string \<Rightarrow> history \<Rightarrow> exn option"
  subprocess_Popen :: "string list \<Rightarrow> history \<Rightarrow> exn + (reads \<times> int)"
  os_remove :: "string \<Rightarrow> history \<Rightarrow> exn option"
  open_file :: "string \<Rightarrow> history \<Rightarrow> exn + reads"

text \<open>
  A piece of program: from the history so far to an exception or a value, and the history
  after it. \<open>and_then\<close> is sequencing: an exception skips what follows.
\<close>

type_synonym 'a action = "history \<Rightarrow> (exn + 'a) \<times> history"

definition ret :: "'a \<Rightarrow> 'a action" where
  "ret x h = (Inr x, h)"

definition raise :: "exn \<Rightarrow> 'a action" where
  "raise e h = (Inl e, h)"

definition and_then :: "'a action \<Rightarrow> ('a \<Rightarrow> 'b action) \<Rightarrow> 'b action" where
  "and_then m k h = (case m h of (Inl e, h') \<Rightarrow> (Inl e, h') | (Inr x, h') \<Rightarrow> k x h')"

definition from_value :: "exn + 'a \<Rightarrow> 'a action" where
  "from_value v h = (v, h)"

definition emit :: "event \<Rightarrow> unit action" where
  "emit ev h = (Inr (), h @ [ev])"

text \<open>\<^verbatim>\<open>print(s)\<close> writes \<open>s\<close> and a newline.\<close>

definition print :: "string \<Rightarrow> unit action" where
  "print s = emit (Stdout (s @ ''\<newline>''))"

text \<open>The calls of the collaborators: the call is recorded, the environment answers.\<close>

definition now :: "env \<Rightarrow> datetime action" where
  "now E h = (Inr (datetime_now E h), h)"

definition new_YouTube :: "env \<Rightarrow> string \<Rightarrow> youtube action" where
  "new_YouTube E url h = (YouTube E url h, h @ [YouTube_call url])"

definition download :: "env \<Rightarrow> stream \<Rightarrow> string \<Rightarrow> unit action" where
  "download E s filename h =
     ((case stream_download E s filename h of Some e \<Rightarrow> Inl e | None \<Rightarrow> Inr ()),
      h @ [Stream_download s filename])"

definition popen :: "env \<Rightarrow> string list \<Rightarrow> (reads \<times> int) action" where
  "popen E command h = (subprocess_Popen E command h, h @ [Popen_call command])"

definition remove :: "env \<Rightarrow> string \<Rightarrow> unit action" where
  "remove E path h =
     ((case os_remove E path h of Some e \<Rightarrow> Inl e | None \<Rightarrow> Inr ()),
      h @ [Os_remove path])"

text \<open>
  \<^verbatim>\<open>for line in process.stdout: print(line, end='')\<close>: every line read from the process
  is written as it is. The loop ends when the process closes its output, or with the
  exception a read raises; the exit status is not read.
\<close>

definition forward_output :: "reads \<Rightarrow> unit action" where
  "forward_output out h =
     ((case read_error out of Some e \<Rightarrow> Inl e | None \<Rightarrow> Inr ()),
      h @ map Stdout (lines_read out))"

section \<open>pytube's stream queries\<close>

text \<open>
  \<^verbatim>\<open>filter(only_audio=True)\<close> keeps the streams with an audio and no video track,
  \<^verbatim>\<open>filter(only_video=True)\<close> those with a video and no audio track.
  \<^verbatim>\<open>order_by(attr)\<close> drops the streams whose attribute is None and sorts the others,
  ascending and stable, by the integer that the digits of the attribute spell; when one
  of them spells no integer it sorts by the attribute as a string. \<^verbatim>\<open>desc()\<close> reverses,
  and \<^verbatim>\<open>first()\<close> is the first stream or None.
\<close>

definition only_audio :: "stream list \<Rightarrow> stream list" where
  "only_audio ss = filter (\<lambda>s. includes_audio_track s \<and> \<not> includes_video_track s) ss"

definition only_video :: "stream list \<Rightarrow> stream list" where
  "only_video ss = filter (\<lambda>s. includes_video_track s \<and> \<not> includes_audio_track s) ss"

definition attr_text :: "(stream \<Rightarrow> string option) \<Rightarrow> stream \<Rightarrow> string" where
  "attr_text attr s = (case attr s of None \<Rightarrow> [] | Some a \<Rightarrow> a)"

definition attr_number :: "(stream \<Rightarrow> string option) \<Rightarrow> stream \<Rightarrow> nat" where
  "attr_number attr s =
     (case py_int (filter py_isdigit (attr_text attr s)) of None \<Rightarrow> 0 | Some n \<Rightarrow> n)"

definition order_by :: "(stream \<Rightarrow> string option) \<Rightarrow> stream list \<Rightarrow> stream list" where
  "order_by attr ss =
     (let has_attribute = filter (\<lambda>s. attr s \<noteq> None) ss
      in if list_all (\<lambda>s. py_int (filter py_isdigit (attr_text attr s)) \<noteq> None) has_attribute
         then sort_key (attr_number attr) has_attribute
         else sort_key (attr_text attr) has_attribute)"

definition desc :: "stream list \<Rightarrow> stream list" where
  "desc ss = rev ss"

definition first :: "stream list \<Rightarrow> stream option" where
  "first ss = (case ss of [] \<Rightarrow> None | s # _ \<Rightarrow> Some s)"

section \<open>\<^verbatim>\<open>download_from_youtube\<close>\<close>

text \<open>
  \<^verbatim>\<open>strftime("%Y-%m-%d_%H-%M-%S")\<close>: the year in four digits, the other fields in two.
  A Python datetime has a year from 1 to 9999.
\<close>

definition digit :: "nat \<Rightarrow> char" where
  "digit n = ''0123456789'' ! (n mod 10)"

definition two_digits :: "nat \<Rightarrow> string" where
  "two_digits n = [digit (n div 10), digit n]"

definition four_digits :: "nat \<Rightarrow> string" where
  "four_digits n = [digit (n div 1000), digit (n div 100), digit (n div 10), digit n]"

definition strftime :: "datetime \<Rightarrow> string" where
  "strftime d =
     four_digits (year d) @ ''-'' @ two_digits (month d) @ ''-'' @ two_digits (day d) @ ''_''
       @ two_digits (hour d) @ ''-'' @ two_digits (minute d) @ ''-'' @ two_digits (second d)"

definition video_title :: "string \<Rightarrow> string" where
  "video_title t = py_replace (CHR ''/'') (CHR ''_'') (py_replace (CHR '' '') (CHR ''_'') t)"

definition output_filename :: "string \<Rightarrow> string \<Rightarrow> bool \<Rightarrow> string" where
  "output_filename t timestamp audio_only =
     (if \<not> audio_only then video_title t @ ''_'' @ timestamp @ ''.mkv''
      else video_title t @ ''_'' @ timestamp @ ''.mp3'')"

definition audio_bitrate :: "string \<Rightarrow> string" where
  "audio_bitrate a = filter py_isdigit a @ ''k''"

definition audio_filename :: "string \<Rightarrow> string" where
  "audio_filename timestamp = ''audio_'' @ timestamp @ ''.mp4''"

definition video_filename :: "string \<Rightarrow> string" where
  "video_filename timestamp = ''video_'' @ timestamp @ ''.mp4''"

definition mux_command :: "string \<Rightarrow> string \<Rightarrow> string \<Rightarrow> string \<Rightarrow> string \<Rightarrow> string list" where
  "mux_command ffmpeg_path video audio bitrate out =
     [ffmpeg_path, ''-y'', ''-i'', video, ''-i'', audio,
      ''-c:v'', ''hevc_nvenc'', ''-preset'', ''fast'', ''-profile:v'', ''main'', ''-c:a'', ''aac'',
      ''-b:a'', bitrate, out]"

definition audio_command :: "string \<Rightarrow> string \<Rightarrow> string \<Rightarrow> string \<Rightarrow> string list" where
  "audio_command ffmpeg_path audio bitrate out =
     [ffmpeg_path, ''-y'', ''-i'', audio, ''-b:a'', bitrate, out]"

text \<open>The branch \<^verbatim>\<open>if not audio_only\<close>: the video stream, the muxing, the video file's removal.\<close>

definition video_branch ::
  "env \<Rightarrow> string \<Rightarrow> stream list \<Rightarrow> string \<Rightarrow> string \<Rightarrow> string \<Rightarrow> unit action" where
  "video_branch E ffmpeg_path ss timestamp bitrate out =
     (let video_stream = first (desc (order_by resolution (only_video ss)))
      in and_then (print ''Download video start...'') (\<lambda>_.
         and_then (case video_stream of
                     None \<Rightarrow> raise (AttributeError (none_has_no_attribute ''download''))
                   | Some s \<Rightarrow> download E s (video_filename timestamp)) (\<lambda>_.
         and_then (print ''Done'') (\<lambda>_.
         and_then (popen E (mux_command ffmpeg_path (video_filename timestamp)
                              (audio_filename timestamp) bitrate out)) (\<lambda>p.
         and_then (forward_output (fst p)) (\<lambda>_.
         remove E (video_filename timestamp)))))))"

text \<open>The \<^verbatim>\<open>else\<close> branch: the audio conversion.\<close>

definition audio_branch :: "env \<Rightarrow> string \<Rightarrow> string \<Rightarrow> string \<Rightarrow> string \<Rightarrow> unit action" where
  "audio_branch E ffmpeg_path timestamp bitrate out =
     and_then (popen E (audio_command ffmpeg_path (audio_filename timestamp) bitrate out)) (\<lambda>p.
     forward_output (fst p))"

text \<open>The function as written, before the decorator.\<close>

definition download_from_youtube_body :: "env \<Rightarrow> string \<Rightarrow> string \<Rightarrow> bool \<Rightarrow> unit action" where
  "download_from_youtube_body E url ffmpeg_path audio_only =
     and_then (print url) (\<lambda>_.
     and_then (now E) (\<lambda>d.
     and_then (new_YouTube E url) (\<lambda>yt.
     and_then (from_value (title yt)) (\<lambda>t.
     and_then (from_value (streams yt)) (\<lambda>ss.
     and_then (case first (desc (order_by abr (only_audio ss))) of
                 None \<Rightarrow> raise (AttributeError (none_has_no_attribute ''abr''))
               | Some s \<Rightarrow> ret s) (\<lambda>audio_stream.
     and_then (case abr audio_stream of
                 None \<Rightarrow> raise (TypeError none_is_not_iterable)
               | Some a \<Rightarrow> ret (audio_bitrate a)) (\<lambda>bitrate.
     and_then (print ''Download audio start...'') (\<lambda>_.
     and_then (download E audio_stream (audio_filename (strftime d))) (\<lambda>_.
     and_then (print ''Done'') (\<lambda>_.
     and_then (if \<not> audio_only
               then video_branch E ffmpeg_path ss (strftime d) bitrate
                      (output_filename t (strftime d) audio_only)
               else audio_branch E ffmpeg_path (strftime d) bitrate
                      (output_filename t (strftime d) audio_only)) (\<lambda>_.
     remove E (audio_filename (strftime d)))))))))))))"

text \<open>
  \<^verbatim>\<open>timing_decorator\<close>: the wrapped function runs, and when it returns the elapsed time
  is printed; an exception passes through with nothing printed.
\<close>

definition timing_decorator :: "'a action \<Rightarrow> 'a action" where
  "timing_decorator func = and_then func (\<lambda>result. and_then (emit Process_time) (\<lambda>_. ret result))"

definition download_from_youtube :: "env \<Rightarrow> string \<Rightarrow> string \<Rightarrow> bool \<Rightarrow> unit action" where
  "download_from_youtube E url ffmpeg_path audio_only =
     timing_decorator (download_from_youtube_body E url ffmpeg_path audio_only)"

section \<open>\<^verbatim>\<open>download_youtube_videos_from_file\<close>\<close>

text \<open>
  How one pass of the loop ends: at a \<^verbatim>\<open>continue\<close>, with the return of
  \<^verbatim>\<open>download_from_youtube\<close>, or in the \<^verbatim>\<open>except\<close> clause.
\<close>

datatype outcome = Rejected bad_line | Succeeded | Failed exn

definition process_line :: "env \<Rightarrow> string \<Rightarrow> string \<Rightarrow> history \<Rightarrow> outcome \<times> history" where
  "process_line E ffmpeg_path line h =
     (case parse_line (validators_url E) line of
        BadLine b \<Rightarrow> (Rejected b, h @ [Stdout (''Bad line: '' @ line @ ''\<newline>'')])
      | Job url audio_only \<Rightarrow>
          (case download_from_youtube E url ffmpeg_path audio_only h of
             (Inl e, h') \<Rightarrow> (Failed e, h' @ [Stdout (exn_message e @ ''\<newline>'')])
           | (Inr _, h') \<Rightarrow> (Succeeded, h')))"

text \<open>
  \<^verbatim>\<open>for line in file\<close>: the loop over the lines of the open file, as the iteration
  yields them (each with its newline). A read that raises is outside the \<^verbatim>\<open>try\<close>: the
  exception ends the loop and leaves the function. The model returns how each pass
  ended, the exception that left the function (\<open>None\<close> when it returned), and the
  history.
\<close>

fun for_line_in_file ::
  "env \<Rightarrow> string \<Rightarrow> reads \<Rightarrow> history \<Rightarrow> outcome list \<times> exn option \<times> history" where
  "for_line_in_file E ffmpeg_path End_of_input h = ([], None, h)"
| "for_line_in_file E ffmpeg_path (Read_raises e) h = ([], Some e, h)"
| "for_line_in_file E ffmpeg_path (Line line rest) h =
     (case process_line E ffmpeg_path line h of
        (oc, h') \<Rightarrow>
          (case for_line_in_file E ffmpeg_path rest h' of
             (ocs, r, h'') \<Rightarrow> (oc # ocs, r, h'')))"

text \<open>
  The function: \<^verbatim>\<open>open(file_path, 'r')\<close>, whose exception leaves the function before
  any line is read, and the loop.
\<close>

definition download_youtube_videos_from_file ::
  "env \<Rightarrow> string \<Rightarrow> string \<Rightarrow> history \<Rightarrow> outcome list \<times> exn option \<times> history" where
  "download_youtube_videos_from_file E file_path ffmpeg_path h =
     (case open_file E file_path h of
        Inl e \<Rightarrow> ([], Some e, h)
      | Inr file \<Rightarrow> for_line_in_file E ffmpeg_path file h)"

section \<open>Notions used to state the properties\<close>

text \<open>
  The timestamp of a job started at history \<open>h\<close>: the clock is read once, right after
  the url has been printed.
\<close>

definition job_timestamp :: "env \<Rightarrow> string \<Rightarrow> history \<Rightarrow> string" where
  "job_timestamp E url h = strftime (datetime_now E (h @ [Stdout (url @ ''\<newline>'')]))"

text \<open>
  The environment in which every run of the transcoder ends with exit status \<open>f st\<close>
  where it ended with \<open>st\<close>, and nothing else differs.
\<close>

definition with_exit_status :: "(int \<Rightarrow> int) \<Rightarrow> env \<Rightarrow> env" where
  "with_exit_status f E =
     E\<lparr>subprocess_Popen := \<lambda>command h.
          (case subprocess_Popen E command h of
             Inl e \<Rightarrow> Inl e
           | Inr p \<Rightarrow> Inr (fst p, f (snd p)))\<rparr>"

section \<open>Sample inputs\<close>

text \<open>
  A stand-in for \<^verbatim>\<open>validators.url\<close>, a catalogue of streams and an environment, used to
  run the model on concrete inputs: the clock stands still, one url is unavailable, every
  download and removal succeeds, and the transcoder writes one line and ends with exit
  status 1. \<open>audio_160\<close> and \<open>video_1080\<close> are the streams of the catalogue with the
  highest bitrate and the highest resolution.
\<close>

definition sample_valid_url :: "string \<Rightarrow> bool" where
  "sample_valid_url s =
     (take 8 s = ''https://'' \<and> 8 < length s \<and> list_all (\<lambda>c. \<not> py_isspace c) s)"

definition audio_160 :: stream where
  "audio_160 = \<lparr>itag = 251, includes_audio_track = True, includes_video_track = False,
                 abr = Some ''160kbps'', resolution = None\<rparr>"

definition video_1080 :: stream where
  "video_1080 = \<lparr>itag = 137, includes_audio_track = False, includes_video_track = True,
                  abr = None, resolution = Some ''1080p''\<rparr>"

definition sample_streams :: "stream list" where
  "sample_streams =
     [\<lparr>itag = 139, includes_audio_track = True, includes_video_track = False,
       abr = Some ''96kbps'', resolution = None\<rparr>,
      audio_160,
      \<lparr>itag = 140, includes_audio_track = True, includes_video_track = False,
       abr = Some ''128kbps'', resolution = None\<rparr>,
      \<lparr>itag = 136, includes_audio_track = False, includes_video_track = True,
       abr = None, resolution = Some ''720p''\<rparr>,
      video_1080,
      \<lparr>itag = 18, includes_audio_track = True, includes_video_track = True,
       abr = Some ''96kbps'', resolution = Some ''360p''\<rparr>]"

definition sample_time :: datetime where
  "sample_time = \<lparr>year = 2024, month = 3, day = 2, hour = 13, minute = 4, second = 5\<rparr>"

text \<open>
  Two input files: \<^verbatim>\<open>urls.txt\<close> with four lines, and \<^verbatim>\<open>broken.txt\<close>, whose bytes are
  not text in the encoding it is opened with, so that the first read raises.
\<close>

definition sample_lines :: "string list" where
  "sample_lines =
     [''not a url line\<newline>'', ''a https://example.com/ok\<newline>'',
      ''a https://example.com/gone\<newline>'', ''a https://example.com/ok\<newline>'']"

definition sample_decode_error :: exn where
  "sample_decode_error =
     External ([CHR 0x27] @ ''utf-8'' @ [CHR 0x27] @ '' codec can'' @ [CHR 0x27]
               @ ''t decode byte 0xff in position 0: invalid start byte'')"

definition sample_env :: env where
  "sample_env =
     \<lparr>validators_url = sample_valid_url,
      datetime_now = (\<lambda>h. sample_time),
      YouTube = (\<lambda>url h.
        if url = ''https://example.com/gone'' then Inl (External ''Video unavailable'')
        else Inr \<lparr>title = Inr ''My video 1/2'', streams = Inr sample_streams\<rparr>),
      stream_download = (\<lambda>s filename h. None),
      subprocess_Popen = (\<lambda>command h. Inr (lines_of [''size=1kB\<newline>''], 1)),
      os_remove = (\<lambda>path h. None),
      open_file = (\<lambda>path h.
        if path = ''urls.txt'' then Inr (lines_of sample_lines)
        else if path = ''broken.txt'' then Inr (Read_raises sample_decode_error)
        else Inl (External ''No such file or directory''))\<rparr>"

text \<open>The sample environment with a title that has a backslash in it.\<close>

definition backslash_env :: env where
  "backslash_env =
     sample_env\<lparr>YouTube := \<lambda>url h.
       Inr \<lparr>title = Inr (''AC'' @ [CHR 0x5C] @ ''DC live''), streams = Inr sample_streams\<rparr>\<rparr>"

text \<open>The sample environment with a clock that moves on with every event.\<close>

definition ticking_env :: env where
  "ticking_env = sample_env\<lparr>datetime_now := \<lambda>h. sample_time\<lparr>second := 10 + length h\<rparr>\<rparr>"

text \<open>The file names of the downloads in a history, in order.\<close>

fun downloaded_files :: "history \<Rightarrow> string list" where
  "downloaded_files [] = []"
| "downloaded_files (Stream_download s f # h) = f # downloaded_files h"
| "downloaded_files (_ # h) = downloaded_files h"

section \<open>Facts about the string functions and the parser\<close>

lemma split_at_not_Nil: "split_at p s \<noteq> []"
  by (induction s) (auto split: list.splits)

lemma split_at_pieces: "list_all (list_all (\<lambda>c. \<not> p c)) (split_at p s)"
  by (induction s) (auto split: list.splits)

lemma join_Cons: "ts \<noteq> [] \<Longrightarrow> join sep (t # ts) = t @ sep @ join sep ts"
  by (cases ts) simp_all

lemma join_split_at: "join [sep] (split_at (\<lambda>c. c = sep) s) = s"
proof (induction s)
  case Nil
  show ?case by simp
next
  case (Cons c cs)
  show ?case
  proof (cases "c = sep")
    case True
    with Cons show ?thesis by (simp add: join_Cons split_at_not_Nil)
  next
    case False
    obtain t ts where ts: "split_at (\<lambda>c. c = sep) cs = t # ts"
      using split_at_not_Nil by (cases "split_at (\<lambda>c. c = sep) cs") auto
    with Cons False show ?thesis by (cases ts) simp_all
  qed
qed

lemma py_strip_whitespace: "list_all py_isspace s \<Longrightarrow> py_strip s = []"
  by (auto simp: py_strip_def list_all_iff dest: set_dropWhileD)

lemma length_py_repr_char: "1 \<le> length (py_repr_char q c)"
  by (simp add: py_repr_char_def)

lemma length_concat_repr: "length s \<le> length (concat (map (py_repr_char q) s))"
proof (induction s)
  case Nil
  show ?case by simp
next
  case (Cons c cs)
  with length_py_repr_char [of q c] show ?case by simp
qed

lemma length_py_repr: "length s + 2 \<le> length (py_repr s)"
  using length_concat_repr [of s] by (simp add: py_repr_def Let_def)

lemma py_str_list_single: "py_str_list [t] = ''['' @ py_repr t @ '']''"
  by (simp add: py_str_list_def)

lemma py_str_list_single_neq: "py_str_list [t] \<noteq> t"
proof
  assume "py_str_list [t] = t"
  then have "length (py_str_list [t]) = length t" by simp
  with length_py_repr [of t] show False by (simp add: py_str_list_single)
qed

lemma parse_too_many:
  "2 < length (py_split (CHR '' '') (py_strip line)) \<Longrightarrow> parse_line valid line = BadLine TooManyTokens"
  by (auto simp: parse_line_def Let_def)

lemma parse_one_valid:
  "py_split (CHR '' '') (py_strip line) = [t] \<Longrightarrow> valid t \<Longrightarrow>
   parse_line valid line = Job (py_str_list [t]) False"
  by (simp add: parse_line_def check_single_def)

lemma parse_one_invalid:
  "py_split (CHR '' '') (py_strip line) = [t] \<Longrightarrow> \<not> valid t \<Longrightarrow>
   parse_line valid line = BadLine NotAUrl"
  by (simp add: parse_line_def check_single_def)

lemma single_char: "length t = 1 \<Longrightarrow> [t ! 0] = t"
  by (cases t) simp_all

lemma parse_flag_valid:
  "py_split (CHR '' '') (py_strip line) = [''a'', t] \<Longrightarrow> valid t \<Longrightarrow>
   parse_line valid line = Job t True"
  by (auto simp: parse_line_def check_single_def single_char)

lemma parse_other_flag:
  "py_split (CHR '' '') (py_strip line) = [f, t] \<Longrightarrow> valid t \<Longrightarrow> f \<noteq> ''a'' \<Longrightarrow>
   parse_line valid line = BadLine FlagNotA"
  by (simp add: parse_line_def)

lemma parse_two_invalid:
  "py_split (CHR '' '') (py_strip line) = [f, t] \<Longrightarrow> \<not> valid t \<Longrightarrow>
   parse_line valid line = Job (py_str_list [f, t]) False"
  by (simp add: parse_line_def check_single_def)

lemma parse_not_NoTokens: "parse_line valid line \<noteq> BadLine NoTokens"
  by (auto simp: parse_line_def check_single_def Let_def py_split_def split_at_not_Nil)

subsection \<open>Running actions\<close>

lemma and_thenE:
  assumes "and_then m k h = (r, h')"
  obtains (stop) e where "m h = (Inl e, h')" and "r = Inl e"
        | (go) x h1 where "m h = (Inr x, h1)" and "k x h1 = (r, h')"
  using assms unfolding and_then_def by (auto split: prod.splits sum.splits)

lemma ret_eq: "ret x h = (r, h') \<longleftrightarrow> r = Inr x \<and> h' = h"
  by (auto simp: ret_def)

lemma raise_eq: "raise e h = (r, h') \<longleftrightarrow> r = Inl e \<and> h' = h"
  by (auto simp: raise_def)

lemma from_value_eq: "from_value v h = (r, h') \<longleftrightarrow> v = r \<and> h' = h"
  by (auto simp: from_value_def)

lemma emit_eq: "emit ev h = (r, h') \<longleftrightarrow> r = Inr () \<and> h' = h @ [ev]"
  by (auto simp: emit_def)

lemma print_eq: "print s h = (r, h') \<longleftrightarrow> r = Inr () \<and> h' = h @ [Stdout (s @ ''\<newline>'')]"
  by (auto simp: print_def emit_def)

lemma now_eq: "now E h = (r, h') \<longleftrightarrow> r = Inr (datetime_now E h) \<and> h' = h"
  by (auto simp: now_def)

lemma new_YouTube_eq:
  "new_YouTube E url h = (r, h') \<longleftrightarrow> YouTube E url h = r \<and> h' = h @ [YouTube_call url]"
  by (auto simp: new_YouTube_def)

lemma download_eq:
  "download E s f h = (r, h') \<longleftrightarrow>
     r = (case stream_download E s f h of Some e \<Rightarrow> Inl e | None \<Rightarrow> Inr ()) \<and>
     h' = h @ [Stream_download s f]"
  by (auto simp: download_def)

lemma popen_eq:
  "popen E c h = (r, h') \<longleftrightarrow> subprocess_Popen E c h = r \<and> h' = h @ [Popen_call c]"
  by (auto simp: popen_def)

lemma remove_eq:
  "remove E p h = (r, h') \<longleftrightarrow>
     r = (case os_remove E p h of Some e \<Rightarrow> Inl e | None \<Rightarrow> Inr ()) \<and> h' = h @ [Os_remove p]"
  by (auto simp: remove_def)

lemma forward_output_eq:
  "forward_output out h = (r, h') \<longleftrightarrow>
     r = (case read_error out of Some e \<Rightarrow> Inl e | None \<Rightarrow> Inr ()) \<and>
     h' = h @ map Stdout (lines_read out)"
  by (auto simp: forward_output_def)

lemmas step_eqs = ret_eq raise_eq from_value_eq emit_eq print_eq now_eq new_YouTube_eq
  download_eq popen_eq remove_eq forward_output_eq

lemma video_branch_extends:
  "video_branch E ff ss ts br out h = (r, h') \<Longrightarrow> \<exists>new. h' = h @ new"
  unfolding video_branch_def Let_def
  by (elim and_thenE) (auto simp: step_eqs split: option.splits)

lemma audio_branch_extends:
  "audio_branch E ff ts br out h = (r, h') \<Longrightarrow> \<exists>new. h' = h @ new"
  unfolding audio_branch_def
  by (elim and_thenE) (auto simp: step_eqs)

lemma body_starts:
  assumes "download_from_youtube_body E url ff ao h = (r, h')"
  shows "\<exists>rest. h' = h @ [Stdout (url @ ''\<newline>''), YouTube_call url] @ rest"
  using assms unfolding download_from_youtube_body_def
  by (elim and_thenE)
     (auto simp: step_eqs split: option.splits if_splits
           dest!: video_branch_extends audio_branch_extends)

lemma decorated_eq:
  "download_from_youtube E url ff ao h =
     (case download_from_youtube_body E url ff ao h of
        (Inl e, h') \<Rightarrow> (Inl e, h')
      | (Inr u, h') \<Rightarrow> (Inr u, h' @ [Process_time]))"
  by (simp add: download_from_youtube_def timing_decorator_def and_then_def emit_def ret_def
           split: prod.splits sum.splits)

lemma job_starts:
  "\<exists>rest. snd (download_from_youtube E url ff ao h) =
          h @ [Stdout (url @ ''\<newline>''), YouTube_call url] @ rest"
proof -
  obtain r h' where run: "download_from_youtube_body E url ff ao h = (r, h')"
    by (cases "download_from_youtube_body E url ff ao h")
  from body_starts [OF run] obtain rest
    where "h' = h @ [Stdout (url @ ''\<newline>''), YouTube_call url] @ rest" ..
  with run show ?thesis
    by (cases r) (simp_all add: decorated_eq)
qed

lemma process_bad_line:
  "parse_line (validators_url E) line = BadLine b \<Longrightarrow>
   process_line E ff line h = (Rejected b, h @ [Stdout (''Bad line: '' @ line @ ''\<newline>'')])"
  by (simp add: process_line_def)

lemma process_job_calls:
  assumes "parse_line (validators_url E) line = Job url ao"
  shows "YouTube_call url \<in> set (snd (process_line E ff line h))
         \<and> (\<forall>b. fst (process_line E ff line h) \<noteq> Rejected b)"
proof -
  obtain rest where
    "snd (download_from_youtube E url ff ao h) = h @ [Stdout (url @ ''\<newline>''), YouTube_call url] @ rest"
    using job_starts by blast
  with assms show ?thesis
    by (auto simp: process_line_def split: prod.splits sum.splits)
qed

lemma process_not_NoTokens: "fst (process_line E ff line h) \<noteq> Rejected NoTokens"
  using parse_not_NoTokens [of "validators_url E" line]
  by (auto simp: process_line_def split: parsed.splits prod.splits sum.splits)

section \<open>The claims about the parser\<close>

text \<open>
  C1. Claimed: a line of one token that is a valid URL gives a job whose url is that
  token. The source passes \<^verbatim>\<open>str(url)\<close> with \<^verbatim>\<open>url\<close> still the list of tokens: the job's
  url is the text of the list, the token's \<^verbatim>\<open>repr\<close> in brackets, which is never the
  token, and \<^verbatim>\<open>YouTube\<close> is called with that text. A line \<^verbatim>\<open>a <URL>\<close> does give the job
  the second token and \<^verbatim>\<open>audio_only = True\<close>.
\<close>

theorem one_token_line_passes_list_text:
  "(py_split (CHR '' '') (py_strip line) = [t] \<and> validators_url E t \<longrightarrow>
      parse_line (validators_url E) line = Job (''['' @ py_repr t @ '']'') False
      \<and> ''['' @ py_repr t @ '']'' \<noteq> t
      \<and> YouTube_call (''['' @ py_repr t @ '']'') \<in> set (snd (process_line E ff line h)))
   \<and> (py_split (CHR '' '') (py_strip line) = [''a'', t] \<and> validators_url E t \<longrightarrow>
      parse_line (validators_url E) line = Job t True)"
proof (intro conjI impI)
  assume a: "py_split (CHR '' '') (py_strip line) = [t] \<and> validators_url E t"
  then show p: "parse_line (validators_url E) line = Job (''['' @ py_repr t @ '']'') False"
    using parse_one_valid [of line t "validators_url E"] by (simp add: py_str_list_single)
  show "''['' @ py_repr t @ '']'' \<noteq> t"
    using py_str_list_single_neq [of t] by (simp add: py_str_list_single)
  show "YouTube_call (''['' @ py_repr t @ '']'') \<in> set (snd (process_line E ff line h))"
    using process_job_calls [OF p] by simp
next
  assume "py_split (CHR '' '') (py_strip line) = [''a'', t] \<and> validators_url E t"
  then show "parse_line (validators_url E) line = Job t True"
    using parse_flag_valid [of line t "validators_url E"] by simp
qed

theorem one_token_line_passes_list_text_witness:
  "py_split (CHR '' '') (py_strip ''https://example.com/video\<newline>'') = [''https://example.com/video'']
   \<and> validators_url sample_env ''https://example.com/video''
   \<and> parse_line (validators_url sample_env) ''https://example.com/video\<newline>''
       = Job (''['' @ [CHR 0x27] @ ''https://example.com/video'' @ [CHR 0x27] @ '']'') False
   \<and> YouTube_call (''['' @ [CHR 0x27] @ ''https://example.com/video'' @ [CHR 0x27] @ '']'')
       \<in> set (snd (process_line sample_env ''ffmpeg.exe'' ''https://example.com/video\<newline>'' []))"
proof -
  have toks: "py_split (CHR '' '') (py_strip ''https://example.com/video\<newline>'')
                = [''https://example.com/video'']"
    by (simp add: py_split_def py_strip_def py_isspace_def)
  have ok: "validators_url sample_env ''https://example.com/video''"
    by (simp add: sample_env_def sample_valid_url_def py_isspace_def)
  have rendered: "py_repr ''https://example.com/video''
                = [CHR 0x27] @ ''https://example.com/video'' @ [CHR 0x27]"
    by (simp add: py_repr_def py_repr_char_def py_isprintable_def Let_def)
  from one_token_line_passes_list_text
         [of "''https://example.com/video\<newline>''" "''https://example.com/video''"
             sample_env "''ffmpeg.exe''" "[]"]
       toks ok
  show ?thesis unfolding rendered by simp
qed

text \<open>
  C2. Claimed: every line of two tokens whose first token is not \<^verbatim>\<open>a\<close> is rejected and
  nothing is called for it, whether or not the second token is a valid URL. The source
  rejects it only when the second token is a valid URL. When the second token is not one,
  neither check of the loop body applies: the line falls through to the call, with the
  text of the token list as url and \<^verbatim>\<open>audio_only = False\<close>, and \<^verbatim>\<open>YouTube\<close> is called.
\<close>

theorem two_tokens_invalid_url_fall_through:
  "(py_split (CHR '' '') (py_strip line) = [f, t] \<and> \<not> validators_url E t \<longrightarrow>
      parse_line (validators_url E) line = Job (py_str_list [f, t]) False
      \<and> YouTube_call (py_str_list [f, t]) \<in> set (snd (process_line E ff line h))
      \<and> (\<forall>b. fst (process_line E ff line h) \<noteq> Rejected b))
   \<and> (py_split (CHR '' '') (py_strip line) = [f, t] \<and> validators_url E t \<and> f \<noteq> ''a'' \<longrightarrow>
      process_line E ff line h
        = (Rejected FlagNotA, h @ [Stdout (''Bad line: '' @ line @ ''\<newline>'')]))"
proof (intro conjI impI)
  assume a: "py_split (CHR '' '') (py_strip line) = [f, t] \<and> \<not> validators_url E t"
  then show p: "parse_line (validators_url E) line = Job (py_str_list [f, t]) False"
    using parse_two_invalid [of line f t "validators_url E"] by simp
  from process_job_calls [OF p]
  show "YouTube_call (py_str_list [f, t]) \<in> set (snd (process_line E ff line h))"
    and "\<forall>b. fst (process_line E ff line h) \<noteq> Rejected b"
    by simp_all
next
  assume "py_split (CHR '' '') (py_strip line) = [f, t] \<and> validators_url E t \<and> f \<noteq> ''a''"
  then have "parse_line (validators_url E) line = BadLine FlagNotA"
    using parse_other_flag [of line f t "validators_url E"] by simp
  then show "process_line E ff line h
               = (Rejected FlagNotA, h @ [Stdout (''Bad line: '' @ line @ ''\<newline>'')])"
    by (rule process_bad_line)
qed

theorem two_tokens_invalid_url_fall_through_witness:
  "py_split (CHR '' '') (py_strip ''b notaurl\<newline>'') = [''b'', ''notaurl'']
   \<and> \<not> validators_url sample_env ''notaurl''
   \<and> parse_line (validators_url sample_env) ''b notaurl\<newline>''
       = Job (''['' @ [CHR 0x27] @ ''b'' @ [CHR 0x27] @ '', '' @ [CHR 0x27] @ ''notaurl''
                @ [CHR 0x27] @ '']'') False
   \<and> YouTube_call (''['' @ [CHR 0x27] @ ''b'' @ [CHR 0x27] @ '', '' @ [CHR 0x27] @ ''notaurl''
                @ [CHR 0x27] @ '']'')
       \<in> set (snd (process_line sample_env ''ffmpeg.exe'' ''b notaurl\<newline>'' []))"
proof -
  have toks: "py_split (CHR '' '') (py_strip ''b notaurl\<newline>'') = [''b'', ''notaurl'']"
    by (simp add: py_split_def py_strip_def py_isspace_def)
  have bad: "\<not> validators_url sample_env ''notaurl''"
    by (simp add: sample_env_def sample_valid_url_def)
  have rendered: "py_str_list [''b'', ''notaurl'']
                = ''['' @ [CHR 0x27] @ ''b'' @ [CHR 0x27] @ '', '' @ [CHR 0x27] @ ''notaurl''
                    @ [CHR 0x27] @ '']''"
    by (simp add: py_str_list_def py_repr_def py_repr_char_def py_isprintable_def Let_def)
  from two_tokens_invalid_url_fall_through
         [of "''b notaurl\<newline>''" "''b''" "''notaurl''" sample_env "''ffmpeg.exe''" "[]"]
       toks bad
  show ?thesis unfolding rendered by simp
qed

text \<open>
  C5. Claimed: the parser splits the trimmed line on whitespace, and every line with no
  token or more than two tokens is rejected with nothing called. The source splits at
  every single space character and at nothing else. On the line \<^verbatim>\<open>x y<TAB>z\<close> splitting
  on whitespace gives three tokens, the source gets two, and the line is not rejected:
  \<^verbatim>\<open>YouTube\<close> is called.
\<close>

theorem whitespace_tokens_counterexample:
  "whitespace_tokens (py_strip (''x y'' @ [CHR 0x09] @ ''z\<newline>'')) = [''x'', ''y'', ''z'']
   \<and> py_split (CHR '' '') (py_strip (''x y'' @ [CHR 0x09] @ ''z\<newline>''))
       = [''x'', ''y'' @ [CHR 0x09] @ ''z'']
   \<and> parse_line (validators_url sample_env) (''x y'' @ [CHR 0x09] @ ''z\<newline>'')
       = Job (py_str_list [''x'', ''y'' @ [CHR 0x09] @ ''z'']) False
   \<and> YouTube_call (py_str_list [''x'', ''y'' @ [CHR 0x09] @ ''z''])
       \<in> set (snd (process_line sample_env ''ffmpeg.exe'' (''x y'' @ [CHR 0x09] @ ''z\<newline>'') []))"
proof -
  have ws: "whitespace_tokens (py_strip (''x y'' @ [CHR 0x09] @ ''z\<newline>'')) = [''x'', ''y'', ''z'']"
    by (simp add: whitespace_tokens_def py_strip_def py_isspace_def)
  have toks: "py_split (CHR '' '') (py_strip (''x y'' @ [CHR 0x09] @ ''z\<newline>''))
                = [''x'', ''y'' @ [CHR 0x09] @ ''z'']"
    by (simp add: py_split_def py_strip_def py_isspace_def)
  have bad: "\<not> validators_url sample_env (''y'' @ [CHR 0x09] @ ''z'')"
    by (simp add: sample_env_def sample_valid_url_def)
  have p: "parse_line (validators_url sample_env) (''x y'' @ [CHR 0x09] @ ''z\<newline>'')
             = Job (py_str_list [''x'', ''y'' @ [CHR 0x09] @ ''z'']) False"
    using parse_two_invalid
            [of "''x y'' @ [CHR 0x09] @ ''z\<newline>''" "''x''" "''y'' @ [CHR 0x09] @ ''z''"
                "validators_url sample_env"]
          toks bad
    by simp
  from ws toks p process_job_calls [OF p] show ?thesis by simp
qed

text \<open>
  C5, as amended. The tokens are the pieces of the trimmed line between single space
  characters: there is at least one, none contains a space, and joined with single
  spaces they give the trimmed line back. Every line with more than two of them is
  rejected (the reason of the specification for this branch is MalformedTokenCount): the
  loop prints the bad-line message and does nothing else for the line.
\<close>

theorem split_on_single_space_and_reject_more_than_two:
  "py_split (CHR '' '') (py_strip line) \<noteq> []
   \<and> list_all (list_all (\<lambda>c. c \<noteq> CHR '' '')) (py_split (CHR '' '') (py_strip line))
   \<and> join '' '' (py_split (CHR '' '') (py_strip line)) = py_strip line
   \<and> (2 < length (py_split (CHR '' '') (py_strip line)) \<longrightarrow>
        parse_line (validators_url E) line = BadLine TooManyTokens
        \<and> spec_reason TooManyTokens = MalformedTokenCount
        \<and> process_line E ff line h
            = (Rejected TooManyTokens, h @ [Stdout (''Bad line: '' @ line @ ''\<newline>'')]))"
proof (intro conjI impI)
  show "py_split (CHR '' '') (py_strip line) \<noteq> []"
    by (simp add: py_split_def split_at_not_Nil)
  show "list_all (list_all (\<lambda>c. c \<noteq> CHR '' '')) (py_split (CHR '' '') (py_strip line))"
    using split_at_pieces [of "\<lambda>c. c = CHR '' ''" "py_strip line"] by (simp add: py_split_def)
  show "join '' '' (py_split (CHR '' '') (py_strip line)) = py_strip line"
    using join_split_at [of "CHR '' ''" "py_strip line"] by (simp add: py_split_def)
  show "spec_reason TooManyTokens = MalformedTokenCount" by simp
next
  assume many: "2 < length (py_split (CHR '' '') (py_strip line))"
  then show p: "parse_line (validators_url E) line = BadLine TooManyTokens"
    by (rule parse_too_many)
  then show "process_line E ff line h
          = (Rejected TooManyTokens, h @ [Stdout (''Bad line: '' @ line @ ''\<newline>'')])"
    by (rule process_bad_line)
qed

theorem split_on_single_space_and_reject_more_than_two_witness:
  "py_split (CHR '' '') (py_strip ''a  https://example.com/video\<newline>'')
     = [''a'', [], ''https://example.com/video'']
   \<and> 2 < length (py_split (CHR '' '') (py_strip ''a  https://example.com/video\<newline>''))
   \<and> process_line sample_env ''ffmpeg.exe'' ''a  https://example.com/video\<newline>'' []
       = (Rejected TooManyTokens, [Stdout ''Bad line: a  https://example.com/video\<newline>\<newline>''])"
proof -
  have toks: "py_split (CHR '' '') (py_strip ''a  https://example.com/video\<newline>'')
                = [''a'', [], ''https://example.com/video'']"
    by (simp add: py_split_def py_strip_def py_isspace_def)
  from split_on_single_space_and_reject_more_than_two
         [of "''a  https://example.com/video\<newline>''" sample_env "''ffmpeg.exe''" "[]"]
       toks
  show ?thesis by simp
qed

text \<open>
  C10. Splitting at the space character never gives an empty list, so the branch
  \<^verbatim>\<open>if not url\<close> is never taken. A line of whitespace only is trimmed to the empty
  string, whose one token is the empty string; when \<^verbatim>\<open>validators.url\<close> rejects the empty
  string, the line is rejected by the check of the single token and nothing is called.
\<close>

theorem zero_token_branch_unreachable:
  "py_split (CHR '' '') s \<noteq> []
   \<and> parse_line valid line \<noteq> BadLine NoTokens
   \<and> fst (process_line E ff line h) \<noteq> Rejected NoTokens
   \<and> (list_all py_isspace line \<and> \<not> validators_url E [] \<longrightarrow>
        py_split (CHR '' '') (py_strip line) = [[]]
        \<and> parse_line (validators_url E) line = BadLine NotAUrl
        \<and> process_line E ff line h
            = (Rejected NotAUrl, h @ [Stdout (''Bad line: '' @ line @ ''\<newline>'')]))"
proof (intro conjI impI)
  show "py_split (CHR '' '') s \<noteq> []"
    by (simp add: py_split_def split_at_not_Nil)
  show "parse_line valid line \<noteq> BadLine NoTokens"
    by (rule parse_not_NoTokens)
  show "fst (process_line E ff line h) \<noteq> Rejected NoTokens"
    by (rule process_not_NoTokens)
next
  assume a: "list_all py_isspace line \<and> \<not> validators_url E []"
  then have empty: "py_strip line = []"
    by (simp add: py_strip_whitespace)
  then show toks: "py_split (CHR '' '') (py_strip line) = [[]]"
    by (simp add: py_split_def)
  from a show p: "parse_line (validators_url E) line = BadLine NotAUrl"
    using parse_one_invalid [OF toks, of "validators_url E"] by simp
  then show "process_line E ff line h
          = (Rejected NotAUrl, h @ [Stdout (''Bad line: '' @ line @ ''\<newline>'')])"
    by (rule process_bad_line)
qed

theorem zero_token_branch_unreachable_witness:
  "list_all py_isspace (''  '' @ [CHR 0x09] @ ''\<newline>'')
   \<and> \<not> validators_url sample_env []
   \<and> process_line sample_env ''ffmpeg.exe'' (''  '' @ [CHR 0x09] @ ''\<newline>'') []
       = (Rejected NotAUrl, [Stdout (''Bad line:   '' @ [CHR 0x09] @ ''\<newline>\<newline>'')])"
proof -
  have ws: "list_all py_isspace (''  '' @ [CHR 0x09] @ ''\<newline>'')"
    by (simp add: py_isspace_def)
  have bad: "\<not> validators_url sample_env []"
    by (simp add: sample_env_def sample_valid_url_def)
  from zero_token_branch_unreachable
         [of "[]" "validators_url sample_env" "''  '' @ [CHR 0x09] @ ''\<newline>''" sample_env
             "''ffmpeg.exe''" "[]"]
       ws bad
  show ?thesis by simp
qed

section \<open>Facts about the run of one job\<close>

lemma video_branch_popen:
  assumes "video_branch E ff ss ts br out h = (r, h')"
  shows "\<exists>new. h' = h @ new \<and>
           (\<forall>c. Popen_call c \<in> set new \<longrightarrow>
                c = mux_command ff (video_filename ts) (audio_filename ts) br out) \<and>
           (\<forall>s f. Stream_download s f \<in> set new \<longrightarrow>
                f = video_filename ts \<and>
                first (desc (order_by resolution (only_video ss))) = Some s)"
  using assms unfolding video_branch_def Let_def
  by (elim and_thenE) (auto simp: step_eqs split: option.splits)

lemma audio_branch_popen:
  assumes "audio_branch E ff ts br out h = (r, h')"
  shows "\<exists>new. h' = h @ new \<and>
           (\<forall>c. Popen_call c \<in> set new \<longrightarrow> c = audio_command ff (audio_filename ts) br out) \<and>
           (\<forall>s f. Stream_download s f \<notin> set new)"
  using assms unfolding audio_branch_def
  by (elim and_thenE) (auto simp: step_eqs)

lemma body_popen:
  assumes "download_from_youtube_body E url ff ao h = (r, h')"
    and "Popen_call cmd \<in> set (drop (length h) h')"
  shows "\<exists>yt t ss s a.
           YouTube E url (h @ [Stdout (url @ ''\<newline>'')]) = Inr yt \<and> title yt = Inr t \<and>
           streams yt = Inr ss \<and> first (desc (order_by abr (only_audio ss))) = Some s \<and>
           abr s = Some a \<and>
           Stream_download s (audio_filename (job_timestamp E url h)) \<in> set (drop (length h) h') \<and>
           cmd = (if ao
                  then audio_command ff (audio_filename (job_timestamp E url h)) (audio_bitrate a)
                         (output_filename t (job_timestamp E url h) ao)
                  else mux_command ff (video_filename (job_timestamp E url h))
                         (audio_filename (job_timestamp E url h)) (audio_bitrate a)
                         (output_filename t (job_timestamp E url h) ao))"
  using assms unfolding download_from_youtube_body_def job_timestamp_def
  by (elim and_thenE)
     (auto simp: step_eqs split: option.splits if_splits
           dest!: video_branch_popen audio_branch_popen)

lemma body_downloads:
  assumes "download_from_youtube_body E url ff ao h = (r, h')"
    and "Stream_download s f \<in> set (drop (length h) h')"
  shows "\<exists>yt ss.
           YouTube E url (h @ [Stdout (url @ ''\<newline>'')]) = Inr yt \<and> streams yt = Inr ss \<and>
           ((f = audio_filename (job_timestamp E url h) \<and>
             first (desc (order_by abr (only_audio ss))) = Some s)
            \<or> (\<not> ao \<and> f = video_filename (job_timestamp E url h) \<and>
                first (desc (order_by resolution (only_video ss))) = Some s))"
  using assms unfolding download_from_youtube_body_def job_timestamp_def
  by (elim and_thenE)
     (auto simp: step_eqs split: option.splits if_splits
           dest!: video_branch_popen audio_branch_popen)

lemma job_events:
  assumes "download_from_youtube E url ff ao h = (r, h')"
  obtains rb hb where "download_from_youtube_body E url ff ao h = (rb, hb)"
    and "set (drop (length h) h') \<subseteq> insert Process_time (set (drop (length h) hb))"
    and "set (drop (length h) hb) \<subseteq> set (drop (length h) h')"
proof -
  obtain rb hb where run: "download_from_youtube_body E url ff ao h = (rb, hb)"
    by (cases "download_from_youtube_body E url ff ao h")
  from body_starts [OF run] obtain rest
    where hb: "hb = h @ [Stdout (url @ ''\<newline>''), YouTube_call url] @ rest" ..
  with run assms have "set (drop (length h) h') \<subseteq> insert Process_time (set (drop (length h) hb))"
    by (cases rb) (auto simp: decorated_eq)
  moreover from hb run assms have "set (drop (length h) hb) \<subseteq> set (drop (length h) h')"
    by (cases rb) (auto simp: decorated_eq)
  ultimately show ?thesis using run by (intro that)
qed

lemma job_popen:
  assumes "download_from_youtube E url ff ao h = (r, h')"
    and "Popen_call cmd \<in> set (drop (length h) h')"
  shows "\<exists>yt t ss s a.
           YouTube E url (h @ [Stdout (url @ ''\<newline>'')]) = Inr yt \<and> title yt = Inr t \<and>
           streams yt = Inr ss \<and> first (desc (order_by abr (only_audio ss))) = Some s \<and>
           abr s = Some a \<and>
           Stream_download s (audio_filename (job_timestamp E url h)) \<in> set (drop (length h) h') \<and>
           cmd = (if ao
                  then audio_command ff (audio_filename (job_timestamp E url h)) (audio_bitrate a)
                         (output_filename t (job_timestamp E url h) ao)
                  else mux_command ff (video_filename (job_timestamp E url h))
                         (audio_filename (job_timestamp E url h)) (audio_bitrate a)
                         (output_filename t (job_timestamp E url h) ao))"
proof -
  from assms(1) obtain rb hb where run: "download_from_youtube_body E url ff ao h = (rb, hb)"
    and sub: "set (drop (length h) h') \<subseteq> insert Process_time (set (drop (length h) hb))"
    and sup: "set (drop (length h) hb) \<subseteq> set (drop (length h) h')"
    by (rule job_events)
  from sub assms(2) have "Popen_call cmd \<in> set (drop (length h) hb)" by auto
  from body_popen [OF run this] sup show ?thesis by blast
qed

lemma job_downloads:
  assumes "download_from_youtube E url ff ao h = (r, h')"
    and "Stream_download s f \<in> set (drop (length h) h')"
  shows "\<exists>yt ss.
           YouTube E url (h @ [Stdout (url @ ''\<newline>'')]) = Inr yt \<and> streams yt = Inr ss \<and>
           ((f = audio_filename (job_timestamp E url h) \<and>
             first (desc (order_by abr (only_audio ss))) = Some s)
            \<or> (\<not> ao \<and> f = video_filename (job_timestamp E url h) \<and>
                first (desc (order_by resolution (only_video ss))) = Some s))"
proof -
  from assms(1) obtain rb hb where run: "download_from_youtube_body E url ff ao h = (rb, hb)"
    and sub: "set (drop (length h) h') \<subseteq> insert Process_time (set (drop (length h) hb))"
    by (rule job_events)
  from sub assms(2) have "Stream_download s f \<in> set (drop (length h) hb)" by auto
  with run show ?thesis by (rule body_downloads)
qed

lemma video_branch_success:
  assumes "video_branch E ff ss ts br out h = (Inr u, h')"
  shows "\<exists>lines s. h' = h @ [Stdout ''Download video start...\<newline>'',
                            Stream_download s (video_filename ts), Stdout ''Done\<newline>'',
                            Popen_call (mux_command ff (video_filename ts) (audio_filename ts) br out)]
                         @ map Stdout lines @ [Os_remove (video_filename ts)]"
  using assms unfolding video_branch_def Let_def
  by (elim and_thenE) (auto simp: step_eqs split: option.splits)

lemma audio_branch_success:
  assumes "audio_branch E ff ts br out h = (Inr u, h')"
  shows "\<exists>lines. h' = h @ [Popen_call (audio_command ff (audio_filename ts) br out)]
                       @ map Stdout lines"
  using assms unfolding audio_branch_def
  by (elim and_thenE) (auto simp: step_eqs split: option.splits)

lemma body_success:
  assumes "download_from_youtube_body E url ff ao h = (Inr u, h')"
  shows "\<exists>c lines sa sv.
           h' = h @ [Stdout (url @ ''\<newline>''), YouTube_call url,
                     Stdout ''Download audio start...\<newline>'',
                     Stream_download sa (audio_filename (job_timestamp E url h)),
                     Stdout ''Done\<newline>'']
                  @ (if ao then []
                     else [Stdout ''Download video start...\<newline>'',
                           Stream_download sv (video_filename (job_timestamp E url h)),
                           Stdout ''Done\<newline>''])
                  @ [Popen_call c] @ map Stdout lines
                  @ (if ao then [] else [Os_remove (video_filename (job_timestamp E url h))])
                  @ [Os_remove (audio_filename (job_timestamp E url h))]"
  using assms unfolding download_from_youtube_body_def job_timestamp_def
  apply (elim and_thenE)
  apply (simp_all add: step_eqs split: option.splits if_splits)
  apply (auto dest!: video_branch_success audio_branch_success)
  done

lemma job_success:
  assumes "download_from_youtube E url ff ao h = (Inr u, h')"
  shows "\<exists>c lines sa sv.
           h' = h @ [Stdout (url @ ''\<newline>''), YouTube_call url,
                     Stdout ''Download audio start...\<newline>'',
                     Stream_download sa (audio_filename (job_timestamp E url h)),
                     Stdout ''Done\<newline>'']
                  @ (if ao then []
                     else [Stdout ''Download video start...\<newline>'',
                           Stream_download sv (video_filename (job_timestamp E url h)),
                           Stdout ''Done\<newline>''])
                  @ [Popen_call c] @ map Stdout lines
                  @ (if ao then [] else [Os_remove (video_filename (job_timestamp E url h))])
                  @ [Os_remove (audio_filename (job_timestamp E url h)), Process_time]"
proof -
  obtain rb hb where run: "download_from_youtube_body E url ff ao h = (rb, hb)"
    by (cases "download_from_youtube_body E url ff ao h")
  with assms obtain ub where ok: "rb = Inr ub" and h': "h' = hb @ [Process_time]"
    by (cases rb) (auto simp: decorated_eq)
  from body_success [OF run [unfolded ok]] h' show ?thesis by auto
qed

subsection \<open>The exit status is not read\<close>

lemma now_status: "now (with_exit_status f E) = now E"
  by (simp add: fun_eq_iff now_def with_exit_status_def)

lemma new_YouTube_status: "new_YouTube (with_exit_status f E) = new_YouTube E"
  by (simp add: fun_eq_iff new_YouTube_def with_exit_status_def)

lemma download_status: "download (with_exit_status f E) = download E"
  by (simp add: fun_eq_iff download_def with_exit_status_def)

lemma remove_status: "remove (with_exit_status f E) = remove E"
  by (simp add: fun_eq_iff remove_def with_exit_status_def)

lemma popen_status:
  "and_then (popen (with_exit_status f E) c) (\<lambda>p. k (fst p)) h
     = and_then (popen E c) (\<lambda>p. k (fst p)) h"
  by (simp add: and_then_def popen_def with_exit_status_def split: sum.splits)

lemma video_branch_status:
  "video_branch (with_exit_status f E) ff ss ts br out = video_branch E ff ss ts br out"
proof -
  have tail: "(\<lambda>_. and_then (popen (with_exit_status f E) c)
                     (\<lambda>p. and_then (forward_output (fst p)) (\<lambda>_. remove E v)))
             = (\<lambda>_. and_then (popen E c)
                     (\<lambda>p. and_then (forward_output (fst p)) (\<lambda>_. remove E v)))" for c v
    using popen_status [of f E c "\<lambda>ls. and_then (forward_output ls) (\<lambda>_. remove E v)"]
    by (simp add: fun_eq_iff)
  show ?thesis
    unfolding video_branch_def download_status remove_status tail ..
qed

lemma audio_branch_status:
  "audio_branch (with_exit_status f E) ff ts br out = audio_branch E ff ts br out"
  using popen_status [of f E _ forward_output]
  by (simp add: fun_eq_iff audio_branch_def)

lemma job_status:
  "download_from_youtube (with_exit_status f E) url ff ao = download_from_youtube E url ff ao"
  unfolding download_from_youtube_def download_from_youtube_body_def
    now_status new_YouTube_status download_status remove_status
    video_branch_status audio_branch_status ..

section \<open>Facts about the stream queries and the file names\<close>

lemma first_desc: "first (desc xs) = Some s \<longleftrightarrow> xs \<noteq> [] \<and> s = last xs"
  by (cases xs rule: rev_cases) (auto simp: first_def desc_def)

lemma order_by_numbers:
  assumes "list_all (\<lambda>t. attr t \<noteq> None \<longrightarrow> py_int (filter py_isdigit (attr_text attr t)) \<noteq> None) ss"
  shows "order_by attr ss = sort_key (attr_number attr) (filter (\<lambda>s. attr s \<noteq> None) ss)"
  using assms by (auto simp: order_by_def Let_def list_all_iff)

lemma sorted_le_last: "sorted xs \<Longrightarrow> x \<in> set xs \<Longrightarrow> x \<le> last xs"
  by (induction xs) auto

lemma last_sort_key_greatest:
  assumes "xs \<noteq> []" and "x \<in> set xs"
  shows "f x \<le> f (last (sort_key f xs))"
proof -
  have ne: "sort_key f xs \<noteq> []" using assms(1) by (metis set_sort set_empty)
  have "sorted (map f (sort_key f xs))" by (rule sorted_sort_key)
  moreover have "f x \<in> set (map f (sort_key f xs))" using assms(2) by simp
  ultimately have "f x \<le> last (map f (sort_key f xs))" by (rule sorted_le_last)
  with ne show ?thesis by (simp add: last_map)
qed

lemma selected_is_greatest:
  assumes sel: "first (desc (order_by attr ss)) = Some s"
    and num: "list_all (\<lambda>t. attr t \<noteq> None \<longrightarrow> py_int (filter py_isdigit (attr_text attr t)) \<noteq> None) ss"
  shows "s \<in> set ss \<and> attr s \<noteq> None \<and>
         (\<forall>t\<in>set ss. attr t \<noteq> None \<longrightarrow> attr_number attr t \<le> attr_number attr s)"
proof -
  let ?has = "filter (\<lambda>s. attr s \<noteq> None) ss"
  let ?sorted = "sort_key (attr_number attr) ?has"
  from sel have ne: "?sorted \<noteq> []" and s: "s = last ?sorted"
    by (simp_all add: first_desc order_by_numbers [OF num])
  from ne have "last ?sorted \<in> set ?sorted" by (rule last_in_set)
  with s have mem: "s \<in> set ?has" by simp
  from ne have has: "?has \<noteq> []" by (metis set_sort set_empty)
  have "attr_number attr t \<le> attr_number attr s" if "t \<in> set ss" and "attr t \<noteq> None" for t
  proof -
    from that have "t \<in> set ?has" by simp
    with has show ?thesis unfolding s by (rule last_sort_key_greatest)
  qed
  with mem show ?thesis by auto
qed

lemma video_title_map:
  "video_title t = map (\<lambda>c. if c = CHR '' '' \<or> c = CHR ''/'' then CHR ''_'' else c) t"
  by (induction t) (auto simp: video_title_def)

lemma nth_digit_decimal:
  assumes "k < 10"
  shows "py_isdecimal (''0123456789'' ! k)"
proof -
  have "list_all py_isdecimal ''0123456789''"
    by (simp add: py_isdecimal_def)
  with assms show ?thesis
    by (simp add: list_all_length)
qed

lemma digit_decimal: "py_isdecimal (digit n)"
  by (simp add: digit_def nth_digit_decimal)

lemma audio_filename_inj: "audio_filename a = audio_filename b \<longleftrightarrow> a = b"
  by (simp add: audio_filename_def)

lemma video_filename_inj: "video_filename a = video_filename b \<longleftrightarrow> a = b"
  by (simp add: video_filename_def)

lemma audio_not_video: "audio_filename a \<noteq> video_filename b"
  by (simp add: audio_filename_def video_filename_def)

section \<open>Facts about the batch loop\<close>

lemma lines_read_lines_of: "lines_read (lines_of ls) = ls"
  by (induction ls) simp_all

lemma read_error_lines_of: "read_error (lines_of ls) = None"
  by (induction ls) simp_all

lemma loop_outcomes:
  "length (fst (for_line_in_file E ff rs h)) = length (lines_read rs)
   \<and> fst (snd (for_line_in_file E ff rs h)) = read_error rs"
proof (induction rs arbitrary: h)
  case End_of_input
  show ?case by simp
next
  case (Read_raises e)
  show ?case by simp
next
  case (Line line rest)
  obtain oc h1 where p: "process_line E ff line h = (oc, h1)"
    by (cases "process_line E ff line h")
  obtain ocs r h2 where l: "for_line_in_file E ff rest h1 = (ocs, r, h2)"
    by (cases "for_line_in_file E ff rest h1")
  from Line [of h1] l have "length ocs = length (lines_read rest)" and "r = read_error rest"
    by simp_all
  with p l show ?case by simp
qed

lemma loop_append:
  "for_line_in_file E ff (lines_of (before @ line # after)) h =
     (case for_line_in_file E ff (lines_of before) h of
        (o1, r1, h1) \<Rightarrow>
          (case process_line E ff line h1 of
             (oc, h2) \<Rightarrow>
               (case for_line_in_file E ff (lines_of after) h2 of
                  (o3, r3, h3) \<Rightarrow> (o1 @ oc # o3, r3, h3))))"
  by (induction before arbitrary: h) (auto split: prod.splits)

lemma process_failed:
  assumes "parse_line (validators_url E) line = Job url ao"
    and "download_from_youtube E url ff ao h = (Inl e, h')"
  shows "process_line E ff line h = (Failed e, h' @ [Stdout (exn_message e @ ''\<newline>'')])"
  using assms by (simp add: process_line_def)

lemma process_succeeded:
  assumes "parse_line (validators_url E) line = Job url ao"
    and "download_from_youtube E url ff ao h = (Inr u, h')"
  shows "process_line E ff line h = (Succeeded, h')"
  using assms by (simp add: process_line_def)

lemma process_extends: "\<exists>new. snd (process_line E ff line h) = h @ new"
proof (cases "parse_line (validators_url E) line")
  case (BadLine b)
  then show ?thesis by (simp add: process_bad_line)
next
  case (Job url ao)
  obtain rest where
    "snd (download_from_youtube E url ff ao h) = h @ [Stdout (url @ ''\<newline>''), YouTube_call url] @ rest"
    using job_starts by blast
  with Job show ?thesis
    by (auto simp: process_line_def split: prod.splits sum.splits)
qed

section \<open>The sample inputs, evaluated\<close>

lemma sample_timestamp: "strftime sample_time = ''2024-03-02_13-04-05''"
  by (simp add: sample_time_def strftime_def four_digits_def two_digits_def digit_def)

lemma sample_audio_stream:
  "first (desc (order_by abr (only_audio sample_streams))) = Some audio_160"
  by (simp add: first_def desc_def order_by_def only_audio_def sample_streams_def attr_text_def
        attr_number_def py_int_def py_isdigit_def py_isdecimal_def audio_160_def video_1080_def)

lemma sample_video_stream:
  "first (desc (order_by resolution (only_video sample_streams))) = Some video_1080"
  by (simp add: first_def desc_def order_by_def only_video_def sample_streams_def attr_text_def
        attr_number_def py_int_def py_isdigit_def py_isdecimal_def audio_160_def video_1080_def)

lemma sample_abr: "abr audio_160 = Some ''160kbps''"
  by (simp add: audio_160_def)

lemma sample_title: "video_title ''My video 1/2'' = ''My_video_1_2''"
  by (simp add: video_title_def)

lemma sample_bitrate: "audio_bitrate ''160kbps'' = ''160k''"
  by (simp add: audio_bitrate_def py_isdigit_def)

lemmas run_defs = and_then_def ret_def raise_def from_value_def emit_def print_def now_def
  new_YouTube_def download_def popen_def remove_def forward_output_def

lemma sample_run_video:
  assumes "url \<noteq> ''https://example.com/gone''"
  shows "download_from_youtube sample_env url ff False h =
     (Inr (),
      h @ [Stdout (url @ ''\<newline>''), YouTube_call url,
           Stdout ''Download audio start...\<newline>'',
           Stream_download audio_160 ''audio_2024-03-02_13-04-05.mp4'', Stdout ''Done\<newline>'',
           Stdout ''Download video start...\<newline>'',
           Stream_download video_1080 ''video_2024-03-02_13-04-05.mp4'', Stdout ''Done\<newline>'',
           Popen_call
             [ff, ''-y'', ''-i'', ''video_2024-03-02_13-04-05.mp4'',
              ''-i'', ''audio_2024-03-02_13-04-05.mp4'', ''-c:v'', ''hevc_nvenc'',
              ''-preset'', ''fast'', ''-profile:v'', ''main'', ''-c:a'', ''aac'',
              ''-b:a'', ''160k'', ''My_video_1_2_2024-03-02_13-04-05.mkv''],
           Stdout ''size=1kB\<newline>'', Os_remove ''video_2024-03-02_13-04-05.mp4'',
           Os_remove ''audio_2024-03-02_13-04-05.mp4'', Process_time])"
  using assms
  by (simp add: download_from_youtube_def timing_decorator_def download_from_youtube_body_def
        video_branch_def run_defs sample_env_def sample_timestamp sample_audio_stream sample_abr
        sample_video_stream sample_title sample_bitrate output_filename_def audio_filename_def
        video_filename_def mux_command_def)

lemma sample_run_audio:
  assumes "url \<noteq> ''https://example.com/gone''"
  shows "download_from_youtube sample_env url ff True h =
     (Inr (),
      h @ [Stdout (url @ ''\<newline>''), YouTube_call url,
           Stdout ''Download audio start...\<newline>'',
           Stream_download audio_160 ''audio_2024-03-02_13-04-05.mp4'', Stdout ''Done\<newline>'',
           Popen_call
             [ff, ''-y'', ''-i'', ''audio_2024-03-02_13-04-05.mp4'',
              ''-b:a'', ''160k'', ''My_video_1_2_2024-03-02_13-04-05.mp3''],
           Stdout ''size=1kB\<newline>'',
           Os_remove ''audio_2024-03-02_13-04-05.mp4'', Process_time])"
  using assms
  by (simp add: download_from_youtube_def timing_decorator_def download_from_youtube_body_def
        audio_branch_def run_defs sample_env_def sample_timestamp sample_audio_stream sample_abr
        sample_title sample_bitrate output_filename_def audio_filename_def audio_command_def)

lemma sample_run_gone:
  "download_from_youtube sample_env ''https://example.com/gone'' ff ao h =
     (Inl (External ''Video unavailable''),
      h @ [Stdout ''https://example.com/gone\<newline>'', YouTube_call ''https://example.com/gone''])"
  by (simp add: download_from_youtube_def timing_decorator_def download_from_youtube_body_def
        run_defs sample_env_def)

lemma sample_parse_audio_line:
  "parse_line (validators_url sample_env) ''a https://example.com/ok\<newline>''
     = Job ''https://example.com/ok'' True"
proof -
  have "py_split (CHR '' '') (py_strip ''a https://example.com/ok\<newline>'')
          = [''a'', ''https://example.com/ok'']"
    by (simp add: py_split_def py_strip_def py_isspace_def)
  moreover have "validators_url sample_env ''https://example.com/ok''"
    by (simp add: sample_env_def sample_valid_url_def py_isspace_def)
  ultimately show ?thesis by (rule parse_flag_valid)
qed

lemma sample_parse_gone_line:
  "parse_line (validators_url sample_env) ''a https://example.com/gone\<newline>''
     = Job ''https://example.com/gone'' True"
proof -
  have "py_split (CHR '' '') (py_strip ''a https://example.com/gone\<newline>'')
          = [''a'', ''https://example.com/gone'']"
    by (simp add: py_split_def py_strip_def py_isspace_def)
  moreover have "validators_url sample_env ''https://example.com/gone''"
    by (simp add: sample_env_def sample_valid_url_def py_isspace_def)
  ultimately show ?thesis by (rule parse_flag_valid)
qed

lemma sample_parse_long_line:
  "parse_line (validators_url sample_env) ''not a url line\<newline>'' = BadLine TooManyTokens"
proof -
  have "py_split (CHR '' '') (py_strip ''not a url line\<newline>'') = [''not'', ''a'', ''url'', ''line'']"
    by (simp add: py_split_def py_strip_def py_isspace_def)
  then show ?thesis by (simp add: parse_too_many)
qed

lemma sample_batch:
  "download_youtube_videos_from_file sample_env ''urls.txt'' ''ffmpeg.exe'' []
   = ([Rejected TooManyTokens, Succeeded, Failed (External ''Video unavailable''), Succeeded],
      None,
      [Stdout ''Bad line: not a url line\<newline>\<newline>'',
       Stdout ''https://example.com/ok\<newline>'', YouTube_call ''https://example.com/ok'',
       Stdout ''Download audio start...\<newline>'',
       Stream_download audio_160 ''audio_2024-03-02_13-04-05.mp4'', Stdout ''Done\<newline>'',
       Popen_call
         [''ffmpeg.exe'', ''-y'', ''-i'', ''audio_2024-03-02_13-04-05.mp4'',
          ''-b:a'', ''160k'', ''My_video_1_2_2024-03-02_13-04-05.mp3''],
       Stdout ''size=1kB\<newline>'',
       Os_remove ''audio_2024-03-02_13-04-05.mp4'', Process_time,
       Stdout ''https://example.com/gone\<newline>'', YouTube_call ''https://example.com/gone'',
       Stdout ''Video unavailable\<newline>'',
       Stdout ''https://example.com/ok\<newline>'', YouTube_call ''https://example.com/ok'',
       Stdout ''Download audio start...\<newline>'',
       Stream_download audio_160 ''audio_2024-03-02_13-04-05.mp4'', Stdout ''Done\<newline>'',
       Popen_call
         [''ffmpeg.exe'', ''-y'', ''-i'', ''audio_2024-03-02_13-04-05.mp4'',
          ''-b:a'', ''160k'', ''My_video_1_2_2024-03-02_13-04-05.mp3''],
       Stdout ''size=1kB\<newline>'',
       Os_remove ''audio_2024-03-02_13-04-05.mp4'', Process_time])"
proof -
  have opened: "open_file sample_env ''urls.txt'' [] = Inr (lines_of sample_lines)"
    by (simp add: sample_env_def)
  show ?thesis
    unfolding download_youtube_videos_from_file_def opened sample_lines_def
    by (simp add: process_line_def sample_parse_audio_line sample_parse_gone_line
          sample_parse_long_line sample_run_audio sample_run_gone)
qed

lemma sample_broken_file:
  "download_youtube_videos_from_file sample_env ''broken.txt'' ''ffmpeg.exe'' []
     = ([], Some sample_decode_error, [])"
proof -
  have opened: "open_file sample_env ''broken.txt'' [] = Inr (Read_raises sample_decode_error)"
    by (simp add: sample_env_def)
  show ?thesis
    unfolding download_youtube_videos_from_file_def opened by simp
qed

lemma backslash_run_video:
  "download_from_youtube backslash_env url ff False h =
     (Inr (),
      h @ [Stdout (url @ ''\<newline>''), YouTube_call url,
           Stdout ''Download audio start...\<newline>'',
           Stream_download audio_160 ''audio_2024-03-02_13-04-05.mp4'', Stdout ''Done\<newline>'',
           Stdout ''Download video start...\<newline>'',
           Stream_download video_1080 ''video_2024-03-02_13-04-05.mp4'', Stdout ''Done\<newline>'',
           Popen_call
             [ff, ''-y'', ''-i'', ''video_2024-03-02_13-04-05.mp4'',
              ''-i'', ''audio_2024-03-02_13-04-05.mp4'', ''-c:v'', ''hevc_nvenc'',
              ''-preset'', ''fast'', ''-profile:v'', ''main'', ''-c:a'', ''aac'',
              ''-b:a'', ''160k'', ''AC'' @ [CHR 0x5C] @ ''DC_live_2024-03-02_13-04-05.mkv''],
           Stdout ''size=1kB\<newline>'', Os_remove ''video_2024-03-02_13-04-05.mp4'',
           Os_remove ''audio_2024-03-02_13-04-05.mp4'', Process_time])"
  by (simp add: download_from_youtube_def timing_decorator_def download_from_youtube_body_def
        video_branch_def run_defs backslash_env_def sample_env_def sample_timestamp
        sample_audio_stream sample_abr sample_video_stream sample_bitrate output_filename_def
        video_title_def audio_filename_def video_filename_def mux_command_def)

section \<open>The claims about one job\<close>

text \<open>
  C3. Claimed: a non-zero exit status of the transcoder raises a TranscodeError carrying
  it, and when muxing the two temporary files are deleted only after exit status 0. The
  source never reads the exit status. In the sample environment the transcoder ends with
  exit status 1; the muxing job returns normally all the same, and both temporary files
  have been removed.
\<close>

theorem nonzero_exit_status_counterexample:
  "subprocess_Popen sample_env
     [''ffmpeg.exe'', ''-y'', ''-i'', ''video_2024-03-02_13-04-05.mp4'',
      ''-i'', ''audio_2024-03-02_13-04-05.mp4'', ''-c:v'', ''hevc_nvenc'',
      ''-preset'', ''fast'', ''-profile:v'', ''main'', ''-c:a'', ''aac'',
      ''-b:a'', ''160k'', ''My_video_1_2_2024-03-02_13-04-05.mkv'']
     [Stdout ''https://example.com/video\<newline>'', YouTube_call ''https://example.com/video'',
      Stdout ''Download audio start...\<newline>'',
      Stream_download audio_160 ''audio_2024-03-02_13-04-05.mp4'', Stdout ''Done\<newline>'',
      Stdout ''Download video start...\<newline>'',
      Stream_download video_1080 ''video_2024-03-02_13-04-05.mp4'', Stdout ''Done\<newline>'']
     = Inr (lines_of [''size=1kB\<newline>''], 1)
   \<and> download_from_youtube sample_env ''https://example.com/video'' ''ffmpeg.exe'' False [] =
     (Inr (),
      [Stdout ''https://example.com/video\<newline>'', YouTube_call ''https://example.com/video'',
       Stdout ''Download audio start...\<newline>'',
       Stream_download audio_160 ''audio_2024-03-02_13-04-05.mp4'', Stdout ''Done\<newline>'',
       Stdout ''Download video start...\<newline>'',
       Stream_download video_1080 ''video_2024-03-02_13-04-05.mp4'', Stdout ''Done\<newline>'',
       Popen_call
         [''ffmpeg.exe'', ''-y'', ''-i'', ''video_2024-03-02_13-04-05.mp4'',
          ''-i'', ''audio_2024-03-02_13-04-05.mp4'', ''-c:v'', ''hevc_nvenc'',
          ''-preset'', ''fast'', ''-profile:v'', ''main'', ''-c:a'', ''aac'',
          ''-b:a'', ''160k'', ''My_video_1_2_2024-03-02_13-04-05.mkv''],
       Stdout ''size=1kB\<newline>'', Os_remove ''video_2024-03-02_13-04-05.mp4'',
       Os_remove ''audio_2024-03-02_13-04-05.mp4'', Process_time])"
proof -
  have "''https://example.com/video'' \<noteq> ''https://example.com/gone''" by simp
  from sample_run_video [OF this, of "''ffmpeg.exe''" "[]"] show ?thesis
    by (simp add: sample_env_def)
qed

text \<open>
  C3, as amended. The exit status of the transcoder is never read: a job runs the same,
  result and history, whatever exit status the transcoder ends with, so no error is
  raised on its account. A job that returns has called the transcoder once, forwarded
  its output, and then removed its temporary files: the video file, when it is not an
  audio-only job, and then the audio file, in both modes.
\<close>

theorem exit_status_is_never_read:
  "download_from_youtube (with_exit_status f E) url ff ao h = download_from_youtube E url ff ao h
   \<and> (fst (download_from_youtube E url ff ao h) = Inr u \<longrightarrow>
        (\<exists>c lines sa sv.
           snd (download_from_youtube E url ff ao h) =
             h @ [Stdout (url @ ''\<newline>''), YouTube_call url,
                  Stdout ''Download audio start...\<newline>'',
                  Stream_download sa (audio_filename (job_timestamp E url h)),
                  Stdout ''Done\<newline>'']
               @ (if ao then []
                  else [Stdout ''Download video start...\<newline>'',
                        Stream_download sv (video_filename (job_timestamp E url h)),
                        Stdout ''Done\<newline>''])
               @ [Popen_call c] @ map Stdout lines
               @ (if ao then [] else [Os_remove (video_filename (job_timestamp E url h))])
               @ [Os_remove (audio_filename (job_timestamp E url h)), Process_time]))"
proof (intro conjI impI)
  show "download_from_youtube (with_exit_status f E) url ff ao h
          = download_from_youtube E url ff ao h"
    by (simp add: job_status)
next
  assume "fst (download_from_youtube E url ff ao h) = Inr u"
  then have "download_from_youtube E url ff ao h
               = (Inr u, snd (download_from_youtube E url ff ao h))"
    by (simp add: prod_eq_iff)
  then show "\<exists>c lines sa sv.
           snd (download_from_youtube E url ff ao h) =
             h @ [Stdout (url @ ''\<newline>''), YouTube_call url,
                  Stdout ''Download audio start...\<newline>'',
                  Stream_download sa (audio_filename (job_timestamp E url h)),
                  Stdout ''Done\<newline>'']
               @ (if ao then []
                  else [Stdout ''Download video start...\<newline>'',
                        Stream_download sv (video_filename (job_timestamp E url h)),
                        Stdout ''Done\<newline>''])
               @ [Popen_call c] @ map Stdout lines
               @ (if ao then [] else [Os_remove (video_filename (job_timestamp E url h))])
               @ [Os_remove (audio_filename (job_timestamp E url h)), Process_time]"
    by (rule job_success)
qed

theorem exit_status_is_never_read_witness:
  "download_from_youtube (with_exit_status (\<lambda>st. 0) sample_env)
       ''https://example.com/video'' ''ffmpeg.exe'' False []
     = download_from_youtube sample_env ''https://example.com/video'' ''ffmpeg.exe'' False []
   \<and> fst (download_from_youtube sample_env ''https://example.com/video'' ''ffmpeg.exe'' False [])
       = Inr ()
   \<and> (\<exists>c lines sa sv.
        snd (download_from_youtube sample_env ''https://example.com/video'' ''ffmpeg.exe'' False [])
          = [Stdout ''https://example.com/video\<newline>'', YouTube_call ''https://example.com/video'',
             Stdout ''Download audio start...\<newline>'',
             Stream_download sa ''audio_2024-03-02_13-04-05.mp4'', Stdout ''Done\<newline>'',
             Stdout ''Download video start...\<newline>'',
             Stream_download sv ''video_2024-03-02_13-04-05.mp4'', Stdout ''Done\<newline>'',
             Popen_call c]
            @ map Stdout lines
            @ [Os_remove ''video_2024-03-02_13-04-05.mp4'',
               Os_remove ''audio_2024-03-02_13-04-05.mp4'', Process_time])"
proof -
  have url: "''https://example.com/video'' \<noteq> ''https://example.com/gone''" by simp
  have ok: "fst (download_from_youtube sample_env ''https://example.com/video'' ''ffmpeg.exe'' False [])
              = Inr ()"
    by (simp add: sample_run_video [OF url])
  have names: "video_filename (job_timestamp sample_env ''https://example.com/video'' [])
                 = ''video_2024-03-02_13-04-05.mp4''"
    "audio_filename (job_timestamp sample_env ''https://example.com/video'' [])
                 = ''audio_2024-03-02_13-04-05.mp4''"
    by (simp_all add: job_timestamp_def sample_env_def sample_timestamp audio_filename_def
          video_filename_def)
  from exit_status_is_never_read
         [of "\<lambda>st. 0" sample_env "''https://example.com/video''" "''ffmpeg.exe''" False "[]" "()"]
       ok
  show ?thesis unfolding names by simp
qed

text \<open>
  C6. The stream that a job downloads as its audio is, among the audio-only streams
  that have a bitrate, one whose bitrate is greatest as a number (when the digits of
  every such bitrate spell a number, as in \<^verbatim>\<open>128kbps\<close>). Every call of the transcoder
  that the job makes has, after \<^verbatim>\<open>-b:a\<close>, the digits of the bitrate of that stream
  followed by \<^verbatim>\<open>k\<close>; and a job that returns has called the transcoder, in both modes.
\<close>

theorem highest_bitrate_audio_is_selected:
  "(YouTube E url (h @ [Stdout (url @ ''\<newline>'')]) = Inr yt \<and> streams yt = Inr ss
    \<and> list_all (\<lambda>t. abr t \<noteq> None \<longrightarrow> py_int (filter py_isdigit (attr_text abr t)) \<noteq> None)
         (only_audio ss)
    \<and> Stream_download s (audio_filename (job_timestamp E url h))
         \<in> set (drop (length h) (snd (download_from_youtube E url ff ao h)))
    \<longrightarrow> s \<in> set (only_audio ss) \<and> abr s \<noteq> None
        \<and> (\<forall>t\<in>set (only_audio ss). abr t \<noteq> None \<longrightarrow> attr_number abr t \<le> attr_number abr s))
   \<and> (Popen_call cmd \<in> set (drop (length h) (snd (download_from_youtube E url ff ao h)))
    \<longrightarrow> (\<exists>s a pre out.
           Stream_download s (audio_filename (job_timestamp E url h))
             \<in> set (drop (length h) (snd (download_from_youtube E url ff ao h)))
           \<and> abr s = Some a
           \<and> cmd = pre @ [''-b:a'', filter py_isdigit a @ ''k'', out]))
   \<and> (fst (download_from_youtube E url ff ao h) = Inr u
    \<longrightarrow> (\<exists>cmd. Popen_call cmd \<in> set (drop (length h) (snd (download_from_youtube E url ff ao h)))))"
proof (intro conjI impI)
  have run: "download_from_youtube E url ff ao h
               = (fst (download_from_youtube E url ff ao h),
                  snd (download_from_youtube E url ff ao h))"
    by simp
  {
    assume a: "YouTube E url (h @ [Stdout (url @ ''\<newline>'')]) = Inr yt \<and> streams yt = Inr ss
      \<and> list_all (\<lambda>t. abr t \<noteq> None \<longrightarrow> py_int (filter py_isdigit (attr_text abr t)) \<noteq> None)
           (only_audio ss)
      \<and> Stream_download s (audio_filename (job_timestamp E url h))
           \<in> set (drop (length h) (snd (download_from_youtube E url ff ao h)))"
    then have yt: "YouTube E url (h @ [Stdout (url @ ''\<newline>'')]) = Inr yt"
      and ss: "streams yt = Inr ss"
      and num: "list_all (\<lambda>t. abr t \<noteq> None \<longrightarrow> py_int (filter py_isdigit (attr_text abr t)) \<noteq> None)
           (only_audio ss)"
      and ev: "Stream_download s (audio_filename (job_timestamp E url h))
           \<in> set (drop (length h) (snd (download_from_youtube E url ff ao h)))"
      by simp_all
    from job_downloads [OF run ev] yt ss
    have sel: "first (desc (order_by abr (only_audio ss))) = Some s"
      using audio_not_video [of "job_timestamp E url h" "job_timestamp E url h"] by auto
    from selected_is_greatest [OF sel num]
    show "s \<in> set (only_audio ss)" and "abr s \<noteq> None"
      and "\<forall>t\<in>set (only_audio ss). abr t \<noteq> None \<longrightarrow> attr_number abr t \<le> attr_number abr s"
      by simp_all
  }
  {
    assume ev: "Popen_call cmd \<in> set (drop (length h) (snd (download_from_youtube E url ff ao h)))"
    from job_popen [OF run ev] obtain t s a where
      dl: "Stream_download s (audio_filename (job_timestamp E url h))
             \<in> set (drop (length h) (snd (download_from_youtube E url ff ao h)))"
      and a: "abr s = Some a"
      and cmd: "cmd = (if ao
                  then audio_command ff (audio_filename (job_timestamp E url h)) (audio_bitrate a)
                         (output_filename t (job_timestamp E url h) ao)
                  else mux_command ff (video_filename (job_timestamp E url h))
                         (audio_filename (job_timestamp E url h)) (audio_bitrate a)
                         (output_filename t (job_timestamp E url h) ao))"
      by auto
    have "\<exists>pre out. cmd = pre @ [''-b:a'', filter py_isdigit a @ ''k'', out]"
    proof (cases ao)
      case True
      with cmd have "cmd = [ff, ''-y'', ''-i'', audio_filename (job_timestamp E url h)]
                             @ [''-b:a'', filter py_isdigit a @ ''k'',
                                output_filename t (job_timestamp E url h) ao]"
        by (simp add: audio_command_def audio_bitrate_def)
      then show ?thesis by blast
    next
      case False
      with cmd have "cmd = [ff, ''-y'', ''-i'', video_filename (job_timestamp E url h), ''-i'',
                            audio_filename (job_timestamp E url h), ''-c:v'', ''hevc_nvenc'',
                            ''-preset'', ''fast'', ''-profile:v'', ''main'', ''-c:a'', ''aac'']
                             @ [''-b:a'', filter py_isdigit a @ ''k'',
                                output_filename t (job_timestamp E url h) ao]"
        by (simp add: mux_command_def audio_bitrate_def)
      then show ?thesis by blast
    qed
    with dl a show "\<exists>s a pre out.
           Stream_download s (audio_filename (job_timestamp E url h))
             \<in> set (drop (length h) (snd (download_from_youtube E url ff ao h)))
           \<and> abr s = Some a
           \<and> cmd = pre @ [''-b:a'', filter py_isdigit a @ ''k'', out]"
      by blast
  }
  {
    assume "fst (download_from_youtube E url ff ao h) = Inr u"
    then have "download_from_youtube E url ff ao h
                 = (Inr u, snd (download_from_youtube E url ff ao h))"
      by (simp add: prod_eq_iff)
    from job_success [OF this]
    show "\<exists>cmd. Popen_call cmd \<in> set (drop (length h) (snd (download_from_youtube E url ff ao h)))"
      by auto
  }
qed

theorem highest_bitrate_audio_is_selected_witness:
  "map abr (only_audio sample_streams) = [Some ''96kbps'', Some ''160kbps'', Some ''128kbps'']
   \<and> map (attr_number abr) (only_audio sample_streams) = [96, 160, 128]
   \<and> abr audio_160 = Some ''160kbps''
   \<and> fst (download_from_youtube sample_env ''https://example.com/video'' ''ffmpeg.exe'' False [])
       = Inr ()
   \<and> Stream_download audio_160 ''audio_2024-03-02_13-04-05.mp4''
       \<in> set (snd (download_from_youtube sample_env ''https://example.com/video'' ''ffmpeg.exe''
                     False []))
   \<and> Popen_call
         [''ffmpeg.exe'', ''-y'', ''-i'', ''video_2024-03-02_13-04-05.mp4'',
          ''-i'', ''audio_2024-03-02_13-04-05.mp4'', ''-c:v'', ''hevc_nvenc'',
          ''-preset'', ''fast'', ''-profile:v'', ''main'', ''-c:a'', ''aac'',
          ''-b:a'', ''160k'', ''My_video_1_2_2024-03-02_13-04-05.mkv'']
       \<in> set (snd (download_from_youtube sample_env ''https://example.com/video'' ''ffmpeg.exe''
                     False []))
   \<and> audio_160 \<in> set (only_audio sample_streams)
   \<and> list_all (\<lambda>t. attr_number abr t \<le> attr_number abr audio_160) (only_audio sample_streams)
   \<and> (\<exists>s a pre out.
        Stream_download s ''audio_2024-03-02_13-04-05.mp4''
          \<in> set (snd (download_from_youtube sample_env ''https://example.com/video''
                        ''ffmpeg.exe'' False []))
        \<and> abr s = Some a
        \<and> [''ffmpeg.exe'', ''-y'', ''-i'', ''video_2024-03-02_13-04-05.mp4'',
            ''-i'', ''audio_2024-03-02_13-04-05.mp4'', ''-c:v'', ''hevc_nvenc'',
            ''-preset'', ''fast'', ''-profile:v'', ''main'', ''-c:a'', ''aac'',
            ''-b:a'', ''160k'', ''My_video_1_2_2024-03-02_13-04-05.mkv'']
           = pre @ [''-b:a'', filter py_isdigit a @ ''k'', out])
   \<and> fst (download_from_youtube sample_env ''https://example.com/video'' ''ffmpeg.exe'' True [])
       = Inr ()
   \<and> (\<exists>s a pre out.
        Stream_download s ''audio_2024-03-02_13-04-05.mp4''
          \<in> set (snd (download_from_youtube sample_env ''https://example.com/video''
                        ''ffmpeg.exe'' True []))
        \<and> abr s = Some a
        \<and> [''ffmpeg.exe'', ''-y'', ''-i'', ''audio_2024-03-02_13-04-05.mp4'',
            ''-b:a'', ''160k'', ''My_video_1_2_2024-03-02_13-04-05.mp3'']
           = pre @ [''-b:a'', filter py_isdigit a @ ''k'', out])"
proof -
  have url: "''https://example.com/video'' \<noteq> ''https://example.com/gone''" by simp
  note video = sample_run_video [OF url, of "''ffmpeg.exe''" "[]"]
  note audio = sample_run_audio [OF url, of "''ffmpeg.exe''" "[]"]
  have abrs: "map abr (only_audio sample_streams)
                = [Some ''96kbps'', Some ''160kbps'', Some ''128kbps'']"
    by (simp add: only_audio_def sample_streams_def audio_160_def video_1080_def)
  have numbers: "map (attr_number abr) (only_audio sample_streams) = [96, 160, 128]"
    by (simp add: only_audio_def sample_streams_def audio_160_def video_1080_def attr_number_def
          attr_text_def py_int_def py_isdigit_def py_isdecimal_def)
  have spelled: "list_all (\<lambda>t. abr t \<noteq> None \<longrightarrow> py_int (filter py_isdigit (attr_text abr t)) \<noteq> None)
                   (only_audio sample_streams)"
    by (simp add: only_audio_def sample_streams_def audio_160_def video_1080_def attr_text_def
          py_int_def py_isdigit_def py_isdecimal_def)
  have yt: "YouTube sample_env ''https://example.com/video''
              ([] @ [Stdout (''https://example.com/video'' @ ''\<newline>'')])
            = Inr \<lparr>title = Inr ''My video 1/2'', streams = Inr sample_streams\<rparr>"
    by (simp add: sample_env_def)
  have name: "audio_filename (job_timestamp sample_env ''https://example.com/video'' [])
                = ''audio_2024-03-02_13-04-05.mp4''"
    by (simp add: job_timestamp_def sample_env_def sample_timestamp audio_filename_def)
  have ok_video: "fst (download_from_youtube sample_env ''https://example.com/video''
                         ''ffmpeg.exe'' False []) = Inr ()"
    by (simp add: video)
  have ok_audio: "fst (download_from_youtube sample_env ''https://example.com/video''
                         ''ffmpeg.exe'' True []) = Inr ()"
    by (simp add: audio)
  have dl: "Stream_download audio_160 ''audio_2024-03-02_13-04-05.mp4''
       \<in> set (snd (download_from_youtube sample_env ''https://example.com/video'' ''ffmpeg.exe''
                     False []))"
    by (simp add: video)
  have call_video: "Popen_call
         [''ffmpeg.exe'', ''-y'', ''-i'', ''video_2024-03-02_13-04-05.mp4'',
          ''-i'', ''audio_2024-03-02_13-04-05.mp4'', ''-c:v'', ''hevc_nvenc'',
          ''-preset'', ''fast'', ''-profile:v'', ''main'', ''-c:a'', ''aac'',
          ''-b:a'', ''160k'', ''My_video_1_2_2024-03-02_13-04-05.mkv'']
       \<in> set (snd (download_from_youtube sample_env ''https://example.com/video'' ''ffmpeg.exe''
                     False []))"
    by (simp add: video)
  have call_audio: "Popen_call
         [''ffmpeg.exe'', ''-y'', ''-i'', ''audio_2024-03-02_13-04-05.mp4'',
          ''-b:a'', ''160k'', ''My_video_1_2_2024-03-02_13-04-05.mp3'']
       \<in> set (snd (download_from_youtube sample_env ''https://example.com/video'' ''ffmpeg.exe''
                     True []))"
    by (simp add: audio)
  note at_video = highest_bitrate_audio_is_selected
         [where cmd = "[''ffmpeg.exe'', ''-y'', ''-i'', ''video_2024-03-02_13-04-05.mp4'',
               ''-i'', ''audio_2024-03-02_13-04-05.mp4'', ''-c:v'', ''hevc_nvenc'',
               ''-preset'', ''fast'', ''-profile:v'', ''main'', ''-c:a'', ''aac'',
               ''-b:a'', ''160k'', ''My_video_1_2_2024-03-02_13-04-05.mkv'']"
            and h = "[]" and E = sample_env and url = "''https://example.com/video''"
            and ff = "''ffmpeg.exe''" and ao = False and s = audio_160
            and yt = "\<lparr>title = Inr ''My video 1/2'', streams = Inr sample_streams\<rparr>"
            and ss = sample_streams, unfolded name]
  note at_audio = highest_bitrate_audio_is_selected
         [where cmd = "[''ffmpeg.exe'', ''-y'', ''-i'', ''audio_2024-03-02_13-04-05.mp4'',
               ''-b:a'', ''160k'', ''My_video_1_2_2024-03-02_13-04-05.mp3'']"
            and h = "[]" and E = sample_env and url = "''https://example.com/video''"
            and ff = "''ffmpeg.exe''" and ao = True and s = audio_160
            and yt = "\<lparr>title = Inr ''My video 1/2'', streams = Inr sample_streams\<rparr>"
            and ss = sample_streams, unfolded name]
  from at_video yt spelled dl
  have best: "audio_160 \<in> set (only_audio sample_streams)
     \<and> (\<forall>t\<in>set (only_audio sample_streams).
           abr t \<noteq> None \<longrightarrow> attr_number abr t \<le> attr_number abr audio_160)"
    by simp
  have "\<forall>t\<in>set (only_audio sample_streams). abr t \<noteq> None"
    by (simp add: only_audio_def sample_streams_def audio_160_def video_1080_def)
  with best
  have greatest: "list_all (\<lambda>t. attr_number abr t \<le> attr_number abr audio_160)
                    (only_audio sample_streams)"
    by (simp add: list_all_iff)
  from best have member: "audio_160 \<in> set (only_audio sample_streams)"
    by simp
  from at_video call_video
  have arg_video: "\<exists>s a pre out.
        Stream_download s ''audio_2024-03-02_13-04-05.mp4''
          \<in> set (snd (download_from_youtube sample_env ''https://example.com/video''
                        ''ffmpeg.exe'' False []))
        \<and> abr s = Some a
        \<and> [''ffmpeg.exe'', ''-y'', ''-i'', ''video_2024-03-02_13-04-05.mp4'',
            ''-i'', ''audio_2024-03-02_13-04-05.mp4'', ''-c:v'', ''hevc_nvenc'',
            ''-preset'', ''fast'', ''-profile:v'', ''main'', ''-c:a'', ''aac'',
            ''-b:a'', ''160k'', ''My_video_1_2_2024-03-02_13-04-05.mkv'']
           = pre @ [''-b:a'', filter py_isdigit a @ ''k'', out]"
    by simp
  from at_audio call_audio
  have arg_audio: "\<exists>s a pre out.
        Stream_download s ''audio_2024-03-02_13-04-05.mp4''
          \<in> set (snd (download_from_youtube sample_env ''https://example.com/video''
                        ''ffmpeg.exe'' True []))
        \<and> abr s = Some a
        \<and> [''ffmpeg.exe'', ''-y'', ''-i'', ''audio_2024-03-02_13-04-05.mp4'',
            ''-b:a'', ''160k'', ''My_video_1_2_2024-03-02_13-04-05.mp3'']
           = pre @ [''-b:a'', filter py_isdigit a @ ''k'', out]"
    by simp
  from abrs numbers sample_abr ok_video dl call_video member greatest arg_video ok_audio
    arg_audio
  show ?thesis by blast
qed



subsection \<open>The digits of the timestamp\<close>

lemma nat_less_10_cases:
  "(k::nat) < 10 \<Longrightarrow>
   k = 0 \<or> k = 1 \<or> k = 2 \<or> k = 3 \<or> k = 4 \<or> k = 5 \<or> k = 6 \<or> k = 7 \<or> k = 8 \<or> k = 9"
  by (auto simp: eval_nat_numeral less_Suc_eq)

lemma of_char_nth_digit:
  assumes "k < 10"
  shows "(of_char (''0123456789'' ! k) :: nat) = 48 + k"
  using nat_less_10_cases [OF assms] by (elim disjE) simp_all

lemma of_char_digit: "(of_char (digit n) :: nat) = 48 + n mod 10"
  by (simp add: digit_def of_char_nth_digit)

lemma spell_two: "10 * (n div 10 mod 10) + n mod 10 = (n::nat) mod 100"
  using mod_mult2_eq [of n 10 10] by simp

lemma spell_four:
  "10 * (10 * (10 * (n div 1000 mod 10) + n div 100 mod 10) + n div 10 mod 10) + n mod 10
     = (n::nat) mod 10000"
proof -
  have a: "n mod 10000 = 10 * (n div 10 mod 1000) + n mod 10"
    using mod_mult2_eq [of n 10 1000] by simp
  have b: "n div 10 mod 1000 = 10 * (n div 100 mod 100) + n div 10 mod 10"
    using mod_mult2_eq [of "n div 10" 10 100] by (simp add: div_mult2_eq [symmetric])
  have c: "n div 100 mod 100 = 10 * (n div 1000 mod 10) + n div 100 mod 10"
    using mod_mult2_eq [of "n div 100" 10 10] by (simp add: div_mult2_eq [symmetric])
  show ?thesis unfolding a b c ..
qed

lemma py_int_two_digits: "py_int (two_digits n) = Some (n mod 100)"
  using spell_two [of n]
  by (simp add: py_int_def two_digits_def digit_decimal of_char_digit)

lemma py_int_four_digits: "py_int (four_digits n) = Some (n mod 10000)"
  using spell_four [of n]
  by (simp add: py_int_def four_digits_def digit_decimal of_char_digit)

lemma ticking_timestamp:
  "job_timestamp ticking_env url [] = ''2024-03-02_13-04-11''"
  "job_timestamp ticking_env url [Process_time] = ''2024-03-02_13-04-12''"
  by (simp_all add: job_timestamp_def ticking_env_def sample_env_def sample_time_def strftime_def
        four_digits_def two_digits_def digit_def)

lemma ticking_run_audio:
  assumes "url \<noteq> ''https://example.com/gone''"
  shows "download_from_youtube ticking_env url ff True h =
     (Inr (),
      h @ [Stdout (url @ ''\<newline>''), YouTube_call url,
           Stdout ''Download audio start...\<newline>'',
           Stream_download audio_160 (audio_filename (job_timestamp ticking_env url h)),
           Stdout ''Done\<newline>'',
           Popen_call
             (audio_command ff (audio_filename (job_timestamp ticking_env url h)) ''160k''
                (output_filename ''My video 1/2'' (job_timestamp ticking_env url h) True)),
           Stdout ''size=1kB\<newline>'',
           Os_remove (audio_filename (job_timestamp ticking_env url h)), Process_time])"
  using assms
  by (simp add: download_from_youtube_def timing_decorator_def download_from_youtube_body_def
        audio_branch_def run_defs ticking_env_def sample_env_def sample_audio_stream sample_abr
        sample_bitrate job_timestamp_def)

section \<open>The claims about file names\<close>

text \<open>
  C8. Claimed: the title in the output file name has every space and every
  path-separator character replaced by an underscore. The source replaces the space and
  \<^verbatim>\<open>/\<close>; the backslash, the path separator of the system whose \<^verbatim>\<open>ffmpeg.exe\<close> the
  docstrings name, is kept. With the title \<^verbatim>\<open>AC\DC live\<close> the output file of the job is
  \<^verbatim>\<open>AC\DC_live_2024-03-02_13-04-05.mkv\<close>.
\<close>

theorem backslash_is_kept_counterexample:
  "YouTube backslash_env ''https://example.com/video'' [Stdout ''https://example.com/video\<newline>'']
     = Inr \<lparr>title = Inr (''AC'' @ [CHR 0x5C] @ ''DC live''), streams = Inr sample_streams\<rparr>
   \<and> download_from_youtube backslash_env ''https://example.com/video'' ''ffmpeg.exe'' False [] =
     (Inr (),
      [Stdout ''https://example.com/video\<newline>'', YouTube_call ''https://example.com/video'',
       Stdout ''Download audio start...\<newline>'',
       Stream_download audio_160 ''audio_2024-03-02_13-04-05.mp4'', Stdout ''Done\<newline>'',
       Stdout ''Download video start...\<newline>'',
       Stream_download video_1080 ''video_2024-03-02_13-04-05.mp4'', Stdout ''Done\<newline>'',
       Popen_call
         [''ffmpeg.exe'', ''-y'', ''-i'', ''video_2024-03-02_13-04-05.mp4'',
          ''-i'', ''audio_2024-03-02_13-04-05.mp4'', ''-c:v'', ''hevc_nvenc'',
          ''-preset'', ''fast'', ''-profile:v'', ''main'', ''-c:a'', ''aac'',
          ''-b:a'', ''160k'', ''AC'' @ [CHR 0x5C] @ ''DC_live_2024-03-02_13-04-05.mkv''],
       Stdout ''size=1kB\<newline>'', Os_remove ''video_2024-03-02_13-04-05.mp4'',
       Os_remove ''audio_2024-03-02_13-04-05.mp4'', Process_time])
   \<and> CHR 0x5C \<in> set (''AC'' @ [CHR 0x5C] @ ''DC_live_2024-03-02_13-04-05.mkv'')"
  using backslash_run_video [of "''https://example.com/video''" "''ffmpeg.exe''" "[]"]
  by (simp add: backslash_env_def)

text \<open>
  C8, as amended. The last argument of every call of the transcoder that a job makes,
  the output file, is the title with every space and every \<^verbatim>\<open>/\<close> replaced by an
  underscore and every other character kept, then an underscore, the job's timestamp
  and the extension: \<^verbatim>\<open>.mp3\<close> for an audio-only job, \<^verbatim>\<open>.mkv\<close> otherwise; and a job
  that returns has made such a call. The timestamp is the clock reading as
  \<^verbatim>\<open>YYYY-MM-DD_HH-MM-SS\<close>: four decimal digits that spell the year, and two that spell
  each of the month, day, hour, minute and second.
\<close>

theorem output_file_name_format:
  "(Popen_call cmd \<in> set (drop (length h) (snd (download_from_youtube E url ff ao h)))
     \<longrightarrow> (\<exists>yt t. YouTube E url (h @ [Stdout (url @ ''\<newline>'')]) = Inr yt \<and> title yt = Inr t
            \<and> last cmd
                = map (\<lambda>c. if c = CHR '' '' \<or> c = CHR ''/'' then CHR ''_'' else c) t
                  @ ''_'' @ job_timestamp E url h @ (if ao then ''.mp3'' else ''.mkv'')))
   \<and> (fst (download_from_youtube E url ff ao h) = Inr u
     \<longrightarrow> (\<exists>cmd. Popen_call cmd \<in> set (drop (length h) (snd (download_from_youtube E url ff ao h)))))
   \<and> (\<exists>Y M D H N S.
        job_timestamp E url h = Y @ ''-'' @ M @ ''-'' @ D @ ''_'' @ H @ ''-'' @ N @ ''-'' @ S
        \<and> length Y = 4 \<and> length M = 2 \<and> length D = 2 \<and> length H = 2 \<and> length N = 2 \<and> length S = 2
        \<and> py_int Y = Some (year (datetime_now E (h @ [Stdout (url @ ''\<newline>'')])) mod 10000)
        \<and> py_int M = Some (month (datetime_now E (h @ [Stdout (url @ ''\<newline>'')])) mod 100)
        \<and> py_int D = Some (day (datetime_now E (h @ [Stdout (url @ ''\<newline>'')])) mod 100)
        \<and> py_int H = Some (hour (datetime_now E (h @ [Stdout (url @ ''\<newline>'')])) mod 100)
        \<and> py_int N = Some (minute (datetime_now E (h @ [Stdout (url @ ''\<newline>'')])) mod 100)
        \<and> py_int S = Some (second (datetime_now E (h @ [Stdout (url @ ''\<newline>'')])) mod 100))"
proof (intro conjI impI)
  assume ev: "Popen_call cmd \<in> set (drop (length h) (snd (download_from_youtube E url ff ao h)))"
  have run: "download_from_youtube E url ff ao h
               = (fst (download_from_youtube E url ff ao h),
                  snd (download_from_youtube E url ff ao h))"
    by simp
  from job_popen [OF run ev] obtain yt t a where
    yt: "YouTube E url (h @ [Stdout (url @ ''\<newline>'')]) = Inr yt" and t: "title yt = Inr t"
    and cmd: "cmd = (if ao
            then audio_command ff (audio_filename (job_timestamp E url h)) (audio_bitrate a)
                   (output_filename t (job_timestamp E url h) ao)
            else mux_command ff (video_filename (job_timestamp E url h))
                   (audio_filename (job_timestamp E url h)) (audio_bitrate a)
                   (output_filename t (job_timestamp E url h) ao))"
    by auto
  from cmd have "last cmd = output_filename t (job_timestamp E url h) ao"
    by (simp add: audio_command_def mux_command_def)
  then have "last cmd
                = map (\<lambda>c. if c = CHR '' '' \<or> c = CHR ''/'' then CHR ''_'' else c) t
                  @ ''_'' @ job_timestamp E url h @ (if ao then ''.mp3'' else ''.mkv'')"
    by (simp add: output_filename_def video_title_map)
  with yt t show "\<exists>yt t. YouTube E url (h @ [Stdout (url @ ''\<newline>'')]) = Inr yt \<and> title yt = Inr t
            \<and> last cmd
                = map (\<lambda>c. if c = CHR '' '' \<or> c = CHR ''/'' then CHR ''_'' else c) t
                  @ ''_'' @ job_timestamp E url h @ (if ao then ''.mp3'' else ''.mkv'')"
    by blast
next
  assume "fst (download_from_youtube E url ff ao h) = Inr u"
  then have "download_from_youtube E url ff ao h
               = (Inr u, snd (download_from_youtube E url ff ao h))"
    by (simp add: prod_eq_iff)
  from job_success [OF this]
  show "\<exists>cmd. Popen_call cmd \<in> set (drop (length h) (snd (download_from_youtube E url ff ao h)))"
    by auto
next
  let ?d = "datetime_now E (h @ [Stdout (url @ ''\<newline>'')])"
  have "job_timestamp E url h
          = four_digits (year ?d) @ ''-'' @ two_digits (month ?d) @ ''-'' @ two_digits (day ?d)
            @ ''_'' @ two_digits (hour ?d) @ ''-'' @ two_digits (minute ?d) @ ''-''
            @ two_digits (second ?d)"
    by (simp add: job_timestamp_def strftime_def)
  moreover have "length (four_digits (year ?d)) = 4"
    by (simp add: four_digits_def)
  moreover have "length (two_digits n) = 2" for n
    by (simp add: two_digits_def)
  ultimately show "\<exists>Y M D H N S.
        job_timestamp E url h = Y @ ''-'' @ M @ ''-'' @ D @ ''_'' @ H @ ''-'' @ N @ ''-'' @ S
        \<and> length Y = 4 \<and> length M = 2 \<and> length D = 2 \<and> length H = 2 \<and> length N = 2 \<and> length S = 2
        \<and> py_int Y = Some (year ?d mod 10000)
        \<and> py_int M = Some (month ?d mod 100)
        \<and> py_int D = Some (day ?d mod 100)
        \<and> py_int H = Some (hour ?d mod 100)
        \<and> py_int N = Some (minute ?d mod 100)
        \<and> py_int S = Some (second ?d mod 100)"
    using py_int_four_digits py_int_two_digits by blast
qed

theorem output_file_name_format_witness:
  "job_timestamp sample_env ''https://example.com/video'' [] = ''2024-03-02_13-04-05''
   \<and> fst (download_from_youtube sample_env ''https://example.com/video'' ''ffmpeg.exe'' False [])
       = Inr ()
   \<and> Popen_call
         [''ffmpeg.exe'', ''-y'', ''-i'', ''video_2024-03-02_13-04-05.mp4'',
          ''-i'', ''audio_2024-03-02_13-04-05.mp4'', ''-c:v'', ''hevc_nvenc'',
          ''-preset'', ''fast'', ''-profile:v'', ''main'', ''-c:a'', ''aac'',
          ''-b:a'', ''160k'', ''My_video_1_2_2024-03-02_13-04-05.mkv'']
       \<in> set (snd (download_from_youtube sample_env ''https://example.com/video'' ''ffmpeg.exe''
                     False []))
   \<and> (\<exists>yt t. YouTube sample_env ''https://example.com/video''
                 ([] @ [Stdout (''https://example.com/video'' @ ''\<newline>'')]) = Inr yt
            \<and> title yt = Inr t
            \<and> ''My_video_1_2_2024-03-02_13-04-05.mkv''
                = map (\<lambda>c. if c = CHR '' '' \<or> c = CHR ''/'' then CHR ''_'' else c) t
                  @ ''_'' @ ''2024-03-02_13-04-05'' @ ''.mkv'')
   \<and> fst (download_from_youtube sample_env ''https://example.com/video'' ''ffmpeg.exe'' True [])
       = Inr ()
   \<and> Popen_call
         [''ffmpeg.exe'', ''-y'', ''-i'', ''audio_2024-03-02_13-04-05.mp4'',
          ''-b:a'', ''160k'', ''My_video_1_2_2024-03-02_13-04-05.mp3'']
       \<in> set (snd (download_from_youtube sample_env ''https://example.com/video'' ''ffmpeg.exe''
                     True []))
   \<and> (\<exists>yt t. YouTube sample_env ''https://example.com/video''
                 ([] @ [Stdout (''https://example.com/video'' @ ''\<newline>'')]) = Inr yt
            \<and> title yt = Inr t
            \<and> ''My_video_1_2_2024-03-02_13-04-05.mp3''
                = map (\<lambda>c. if c = CHR '' '' \<or> c = CHR ''/'' then CHR ''_'' else c) t
                  @ ''_'' @ ''2024-03-02_13-04-05'' @ ''.mp3'')"
proof -
  have url: "''https://example.com/video'' \<noteq> ''https://example.com/gone''" by simp
  note video = sample_run_video [OF url, of "''ffmpeg.exe''" "[]"]
  note audio = sample_run_audio [OF url, of "''ffmpeg.exe''" "[]"]
  have ts: "job_timestamp sample_env ''https://example.com/video'' [] = ''2024-03-02_13-04-05''"
    by (simp add: job_timestamp_def sample_env_def sample_timestamp)
  have ok_video: "fst (download_from_youtube sample_env ''https://example.com/video''
                         ''ffmpeg.exe'' False []) = Inr ()"
    by (simp add: video)
  have ok_audio: "fst (download_from_youtube sample_env ''https://example.com/video''
                         ''ffmpeg.exe'' True []) = Inr ()"
    by (simp add: audio)
  have call_video: "Popen_call
         [''ffmpeg.exe'', ''-y'', ''-i'', ''video_2024-03-02_13-04-05.mp4'',
          ''-i'', ''audio_2024-03-02_13-04-05.mp4'', ''-c:v'', ''hevc_nvenc'',
          ''-preset'', ''fast'', ''-profile:v'', ''main'', ''-c:a'', ''aac'',
          ''-b:a'', ''160k'', ''My_video_1_2_2024-03-02_13-04-05.mkv'']
       \<in> set (snd (download_from_youtube sample_env ''https://example.com/video'' ''ffmpeg.exe''
                     False []))"
    by (simp add: video)
  have call_audio: "Popen_call
         [''ffmpeg.exe'', ''-y'', ''-i'', ''audio_2024-03-02_13-04-05.mp4'',
          ''-b:a'', ''160k'', ''My_video_1_2_2024-03-02_13-04-05.mp3'']
       \<in> set (snd (download_from_youtube sample_env ''https://example.com/video'' ''ffmpeg.exe''
                     True []))"
    by (simp add: audio)
  from output_file_name_format
         [where cmd = "[''ffmpeg.exe'', ''-y'', ''-i'', ''video_2024-03-02_13-04-05.mp4'',
               ''-i'', ''audio_2024-03-02_13-04-05.mp4'', ''-c:v'', ''hevc_nvenc'',
               ''-preset'', ''fast'', ''-profile:v'', ''main'', ''-c:a'', ''aac'',
               ''-b:a'', ''160k'', ''My_video_1_2_2024-03-02_13-04-05.mkv'']"
            and h = "[]" and E = sample_env and url = "''https://example.com/video''"
            and ff = "''ffmpeg.exe''" and ao = False]
       call_video
  have name_video: "\<exists>yt t. YouTube sample_env ''https://example.com/video''
                 ([] @ [Stdout (''https://example.com/video'' @ ''\<newline>'')]) = Inr yt
            \<and> title yt = Inr t
            \<and> ''My_video_1_2_2024-03-02_13-04-05.mkv''
                = map (\<lambda>c. if c = CHR '' '' \<or> c = CHR ''/'' then CHR ''_'' else c) t
                  @ ''_'' @ ''2024-03-02_13-04-05'' @ ''.mkv''"
    unfolding ts by simp
  from output_file_name_format
         [where cmd = "[''ffmpeg.exe'', ''-y'', ''-i'', ''audio_2024-03-02_13-04-05.mp4'',
               ''-b:a'', ''160k'', ''My_video_1_2_2024-03-02_13-04-05.mp3'']"
            and h = "[]" and E = sample_env and url = "''https://example.com/video''"
            and ff = "''ffmpeg.exe''" and ao = True]
       call_audio
  have name_audio: "\<exists>yt t. YouTube sample_env ''https://example.com/video''
                 ([] @ [Stdout (''https://example.com/video'' @ ''\<newline>'')]) = Inr yt
            \<and> title yt = Inr t
            \<and> ''My_video_1_2_2024-03-02_13-04-05.mp3''
                = map (\<lambda>c. if c = CHR '' '' \<or> c = CHR ''/'' then CHR ''_'' else c) t
                  @ ''_'' @ ''2024-03-02_13-04-05'' @ ''.mp3''"
    unfolding ts by simp
  from ts ok_video call_video name_video ok_audio call_audio name_audio
  show ?thesis by blast
qed

text \<open>
  C9. Claimed: the temporary file names of two jobs of one batch never collide. The
  names are \<^verbatim>\<open>audio_<timestamp>.mp4\<close> and \<^verbatim>\<open>video_<timestamp>.mp4\<close>, and the timestamp
  has the clock reading to the second. In the sample environment, where the clock
  stands still, the second and the fourth line of the file are two jobs that both
  download to the same file.
\<close>

theorem temporary_names_collide_counterexample:
  "open_file sample_env ''urls.txt'' []
     = Inr (lines_of [''not a url line\<newline>'', ''a https://example.com/ok\<newline>'',
                      ''a https://example.com/gone\<newline>'', ''a https://example.com/ok\<newline>''])
   \<and> fst (download_youtube_videos_from_file sample_env ''urls.txt'' ''ffmpeg.exe'' [])
     = [Rejected TooManyTokens, Succeeded, Failed (External ''Video unavailable''), Succeeded]
   \<and> downloaded_files
        (snd (snd (download_youtube_videos_from_file sample_env ''urls.txt'' ''ffmpeg.exe'' [])))
     = [''audio_2024-03-02_13-04-05.mp4'', ''audio_2024-03-02_13-04-05.mp4'']"
proof -
  have "open_file sample_env ''urls.txt'' []
     = Inr (lines_of [''not a url line\<newline>'', ''a https://example.com/ok\<newline>'',
                      ''a https://example.com/gone\<newline>'', ''a https://example.com/ok\<newline>''])"
    by (simp add: sample_env_def sample_lines_def)
  then show ?thesis unfolding sample_batch by simp
qed

text \<open>
  C9, as amended. Every download of a job goes to the audio or the video file named
  after the job's timestamp, and two jobs whose timestamps differ never download to the
  same file.
\<close>

theorem temporary_names_differ_when_timestamps_differ:
  "(Stream_download s f \<in> set (drop (length h) (snd (download_from_youtube E url ff ao h)))
     \<longrightarrow> f = audio_filename (job_timestamp E url h)
         \<or> (\<not> ao \<and> f = video_filename (job_timestamp E url h)))
   \<and> (Stream_download s1 f1 \<in> set (drop (length h1) (snd (download_from_youtube E url1 ff ao1 h1)))
      \<and> Stream_download s2 f2 \<in> set (drop (length h2) (snd (download_from_youtube E url2 ff ao2 h2)))
      \<and> job_timestamp E url1 h1 \<noteq> job_timestamp E url2 h2
     \<longrightarrow> f1 \<noteq> f2)"
proof -
  have names: "g = audio_filename (job_timestamp E u k)
                 \<or> (\<not> a \<and> g = video_filename (job_timestamp E u k))"
    if "Stream_download z g \<in> set (drop (length k) (snd (download_from_youtube E u ff a k)))"
    for z g u a k
  proof -
    have "download_from_youtube E u ff a k
            = (fst (download_from_youtube E u ff a k), snd (download_from_youtube E u ff a k))"
      by simp
    from job_downloads [OF this that] show ?thesis by blast
  qed
  show ?thesis
  proof (intro conjI impI)
    assume "Stream_download s f \<in> set (drop (length h) (snd (download_from_youtube E url ff ao h)))"
    then show "f = audio_filename (job_timestamp E url h)
                 \<or> (\<not> ao \<and> f = video_filename (job_timestamp E url h))"
      by (rule names)
  next
    assume a: "Stream_download s1 f1 \<in> set (drop (length h1) (snd (download_from_youtube E url1 ff ao1 h1)))
      \<and> Stream_download s2 f2 \<in> set (drop (length h2) (snd (download_from_youtube E url2 ff ao2 h2)))
      \<and> job_timestamp E url1 h1 \<noteq> job_timestamp E url2 h2"
    then have 1: "f1 = audio_filename (job_timestamp E url1 h1)
                    \<or> f1 = video_filename (job_timestamp E url1 h1)"
      and 2: "f2 = audio_filename (job_timestamp E url2 h2)
                    \<or> f2 = video_filename (job_timestamp E url2 h2)"
      using names [of s1 f1 h1 url1 ao1] names [of s2 f2 h2 url2 ao2] by auto
    from a have "job_timestamp E url1 h1 \<noteq> job_timestamp E url2 h2" by simp
    with 1 2 show "f1 \<noteq> f2"
      using audio_not_video [of "job_timestamp E url1 h1" "job_timestamp E url2 h2"]
        audio_not_video [of "job_timestamp E url2 h2" "job_timestamp E url1 h1"]
      by (auto simp: audio_filename_inj video_filename_inj)
  qed
qed

theorem temporary_names_differ_when_timestamps_differ_witness:
  "Stream_download audio_160 ''audio_2024-03-02_13-04-11.mp4''
     \<in> set (drop (length ([] :: history))
              (snd (download_from_youtube ticking_env ''https://example.com/ok'' ''ffmpeg.exe'' True [])))
   \<and> Stream_download audio_160 ''audio_2024-03-02_13-04-12.mp4''
     \<in> set (drop (length [Process_time])
              (snd (download_from_youtube ticking_env ''https://example.com/ok'' ''ffmpeg.exe'' True
                     [Process_time])))
   \<and> job_timestamp ticking_env ''https://example.com/ok'' []
       \<noteq> job_timestamp ticking_env ''https://example.com/ok'' [Process_time]
   \<and> ''audio_2024-03-02_13-04-11.mp4'' \<noteq> ''audio_2024-03-02_13-04-12.mp4''"
proof -
  have url: "''https://example.com/ok'' \<noteq> ''https://example.com/gone''" by simp
  have one: "Stream_download audio_160 ''audio_2024-03-02_13-04-11.mp4''
     \<in> set (drop (length ([] :: history))
              (snd (download_from_youtube ticking_env ''https://example.com/ok'' ''ffmpeg.exe'' True [])))"
    by (simp add: ticking_run_audio [OF url] ticking_timestamp audio_filename_def)
  have two: "Stream_download audio_160 ''audio_2024-03-02_13-04-12.mp4''
     \<in> set (drop (length [Process_time])
              (snd (download_from_youtube ticking_env ''https://example.com/ok'' ''ffmpeg.exe'' True
                     [Process_time])))"
    by (simp add: ticking_run_audio [OF url] ticking_timestamp audio_filename_def)
  have ts: "job_timestamp ticking_env ''https://example.com/ok'' []
       \<noteq> job_timestamp ticking_env ''https://example.com/ok'' [Process_time]"
    by (simp add: ticking_timestamp)
  from temporary_names_differ_when_timestamps_differ
         [where ?s1.0 = audio_160 and ?f1.0 = "''audio_2024-03-02_13-04-11.mp4''" and ?h1.0 = "[]"
            and E = ticking_env and ?url1.0 = "''https://example.com/ok''"
            and ff = "''ffmpeg.exe''" and ?ao1.0 = True
            and ?s2.0 = audio_160
            and ?f2.0 = "''audio_2024-03-02_13-04-12.mp4''" and ?h2.0 = "[Process_time]"
            and ?url2.0 = "''https://example.com/ok''" and ?ao2.0 = True]
       one two ts
  have "''audio_2024-03-02_13-04-11.mp4'' \<noteq> ''audio_2024-03-02_13-04-12.mp4''"
    by blast
  with one two ts show ?thesis by blast
qed

section \<open>The claim about the batch\<close>

text \<open>
  C4. Claimed: for every input file the batch never aborts as a whole and gives one
  outcome for every line. The \<^verbatim>\<open>try\<close> of the source encloses only the call of
  \<^verbatim>\<open>download_from_youtube\<close>: \<^verbatim>\<open>open\<close> and the reading of the lines stand outside it.
  The bytes of the sample file \<^verbatim>\<open>broken.txt\<close> are not text in the encoding it is opened
  with: the first read raises, the exception leaves the function, and no line has an
  outcome.
\<close>

theorem unreadable_file_aborts_counterexample:
  "open_file sample_env ''broken.txt'' [] = Inr (Read_raises sample_decode_error)
   \<and> download_youtube_videos_from_file sample_env ''broken.txt'' ''ffmpeg.exe'' []
       = ([], Some sample_decode_error, [])"
proof -
  have "open_file sample_env ''broken.txt'' [] = Inr (Read_raises sample_decode_error)"
    by (simp add: sample_env_def)
  with sample_broken_file show ?thesis by simp
qed

text \<open>
  C4, as amended. For every input file that is opened and read to its end without an
  error, the function returns and gives one outcome for every line. Whatever happens at
  a line (a rejection, a job that returns, a job that raises), the lines after it are
  processed, from the history that line left. An exception raised by
  \<^verbatim>\<open>download_from_youtube\<close> is caught in the loop body: its message is printed and the
  line's outcome is the failure. The history only grows. An exception of \<^verbatim>\<open>open\<close> or
  of a read is not caught: it leaves the function, after one outcome for every line
  read before it.
\<close>

theorem batch_isolates_every_job:
  "(open_file E file_path h = Inr (lines_of lines) \<longrightarrow>
      fst (snd (download_youtube_videos_from_file E file_path ff h)) = None
      \<and> length (fst (download_youtube_videos_from_file E file_path ff h)) = length lines)
   \<and> for_line_in_file E ff (lines_of (before @ line # after)) h =
       (case for_line_in_file E ff (lines_of before) h of
          (o1, r1, h1) \<Rightarrow>
            (case process_line E ff line h1 of
               (oc, h2) \<Rightarrow>
                 (case for_line_in_file E ff (lines_of after) h2 of
                    (o3, r3, h3) \<Rightarrow> (o1 @ oc # o3, r3, h3))))
   \<and> (parse_line (validators_url E) line = Job url ao
      \<and> download_from_youtube E url ff ao h = (Inl e, h')
     \<longrightarrow> process_line E ff line h = (Failed e, h' @ [Stdout (exn_message e @ ''\<newline>'')]))
   \<and> (\<exists>new. snd (process_line E ff line h) = h @ new)
   \<and> (open_file E file_path h = Inl err
     \<longrightarrow> download_youtube_videos_from_file E file_path ff h = ([], Some err, h))
   \<and> (open_file E file_path h = Inr rs \<longrightarrow>
      fst (snd (download_youtube_videos_from_file E file_path ff h)) = read_error rs
      \<and> length (fst (download_youtube_videos_from_file E file_path ff h))
          = length (lines_read rs))"
proof (intro conjI impI)
  assume "open_file E file_path h = Inr (lines_of lines)"
  then have run: "download_youtube_videos_from_file E file_path ff h
                    = for_line_in_file E ff (lines_of lines) h"
    by (simp add: download_youtube_videos_from_file_def)
  show "fst (snd (download_youtube_videos_from_file E file_path ff h)) = None"
    using loop_outcomes [of E ff "lines_of lines" h]
    by (simp add: run read_error_lines_of)
  show "length (fst (download_youtube_videos_from_file E file_path ff h)) = length lines"
    using loop_outcomes [of E ff "lines_of lines" h]
    by (simp add: run lines_read_lines_of)
next
  show "for_line_in_file E ff (lines_of (before @ line # after)) h =
       (case for_line_in_file E ff (lines_of before) h of
          (o1, r1, h1) \<Rightarrow>
            (case process_line E ff line h1 of
               (oc, h2) \<Rightarrow>
                 (case for_line_in_file E ff (lines_of after) h2 of
                    (o3, r3, h3) \<Rightarrow> (o1 @ oc # o3, r3, h3))))"
    by (rule loop_append)
  show "\<exists>new. snd (process_line E ff line h) = h @ new"
    by (rule process_extends)
next
  assume "parse_line (validators_url E) line = Job url ao
      \<and> download_from_youtube E url ff ao h = (Inl e, h')"
  then show "process_line E ff line h = (Failed e, h' @ [Stdout (exn_message e @ ''\<newline>'')])"
    by (simp add: process_failed)
next
  assume "open_file E file_path h = Inl err"
  then show "download_youtube_videos_from_file E file_path ff h = ([], Some err, h)"
    by (simp add: download_youtube_videos_from_file_def)
next
  assume "open_file E file_path h = Inr rs"
  then have run: "download_youtube_videos_from_file E file_path ff h
                    = for_line_in_file E ff rs h"
    by (simp add: download_youtube_videos_from_file_def)
  show "fst (snd (download_youtube_videos_from_file E file_path ff h)) = read_error rs"
    using loop_outcomes [of E ff rs h] by (simp add: run)
  show "length (fst (download_youtube_videos_from_file E file_path ff h))
          = length (lines_read rs)"
    using loop_outcomes [of E ff rs h] by (simp add: run)
qed

theorem batch_isolates_every_job_witness:
  "open_file sample_env ''urls.txt'' []
     = Inr (lines_of [''not a url line\<newline>'', ''a https://example.com/ok\<newline>'',
                      ''a https://example.com/gone\<newline>'', ''a https://example.com/ok\<newline>''])
   \<and> fst (snd (download_youtube_videos_from_file sample_env ''urls.txt'' ''ffmpeg.exe'' [])) = None
   \<and> length (fst (download_youtube_videos_from_file sample_env ''urls.txt'' ''ffmpeg.exe'' []))
       = length [''not a url line\<newline>'', ''a https://example.com/ok\<newline>'',
                 ''a https://example.com/gone\<newline>'', ''a https://example.com/ok\<newline>'']
   \<and> fst (download_youtube_videos_from_file sample_env ''urls.txt'' ''ffmpeg.exe'' [])
       = [Rejected TooManyTokens, Succeeded, Failed (External ''Video unavailable''), Succeeded]
   \<and> parse_line (validators_url sample_env) ''a https://example.com/gone\<newline>''
       = Job ''https://example.com/gone'' True
   \<and> download_from_youtube sample_env ''https://example.com/gone'' ''ffmpeg.exe'' True [] =
       (Inl (External ''Video unavailable''),
        [Stdout ''https://example.com/gone\<newline>'', YouTube_call ''https://example.com/gone''])
   \<and> process_line sample_env ''ffmpeg.exe'' ''a https://example.com/gone\<newline>'' [] =
       (Failed (External ''Video unavailable''),
        [Stdout ''https://example.com/gone\<newline>'', YouTube_call ''https://example.com/gone'',
         Stdout ''Video unavailable\<newline>''])
   \<and> open_file sample_env ''missing.txt'' [] = Inl (External ''No such file or directory'')
   \<and> download_youtube_videos_from_file sample_env ''missing.txt'' ''ffmpeg.exe'' []
       = ([], Some (External ''No such file or directory''), [])
   \<and> open_file sample_env ''broken.txt'' [] = Inr (Read_raises sample_decode_error)
   \<and> fst (snd (download_youtube_videos_from_file sample_env ''broken.txt'' ''ffmpeg.exe'' []))
       = read_error (Read_raises sample_decode_error)
   \<and> length (fst (download_youtube_videos_from_file sample_env ''broken.txt'' ''ffmpeg.exe'' []))
       = length (lines_read (Read_raises sample_decode_error))"
proof -
  note p = sample_parse_gone_line
  have opened: "open_file sample_env ''urls.txt'' []
     = Inr (lines_of [''not a url line\<newline>'', ''a https://example.com/ok\<newline>'',
                      ''a https://example.com/gone\<newline>'', ''a https://example.com/ok\<newline>''])"
    by (simp add: sample_env_def sample_lines_def)
  have run: "download_from_youtube sample_env ''https://example.com/gone'' ''ffmpeg.exe'' True [] =
       (Inl (External ''Video unavailable''),
        [Stdout ''https://example.com/gone\<newline>'', YouTube_call ''https://example.com/gone''])"
    using sample_run_gone [of "''ffmpeg.exe''" True "[]"] by simp
  note inst = batch_isolates_every_job
         [where E = sample_env and ff = "''ffmpeg.exe''" and file_path = "''urls.txt''"
            and lines = "[''not a url line\<newline>'', ''a https://example.com/ok\<newline>'',
                          ''a https://example.com/gone\<newline>'', ''a https://example.com/ok\<newline>'']"
            and line = "''a https://example.com/gone\<newline>''" and h = "[]"
            and url = "''https://example.com/gone''" and ao = True
            and e = "External ''Video unavailable''"
            and h' = "[Stdout ''https://example.com/gone\<newline>'',
                       YouTube_call ''https://example.com/gone'']"]
  from inst opened
  have returns: "fst (snd (download_youtube_videos_from_file sample_env ''urls.txt'' ''ffmpeg.exe'' []))
                   = None
     \<and> length (fst (download_youtube_videos_from_file sample_env ''urls.txt'' ''ffmpeg.exe'' []))
       = length [''not a url line\<newline>'', ''a https://example.com/ok\<newline>'',
                 ''a https://example.com/gone\<newline>'', ''a https://example.com/ok\<newline>'']"
    by blast
  from inst p run
  have failed: "process_line sample_env ''ffmpeg.exe'' ''a https://example.com/gone\<newline>'' [] =
       (Failed (External ''Video unavailable''),
        [Stdout ''https://example.com/gone\<newline>'', YouTube_call ''https://example.com/gone'',
         Stdout ''Video unavailable\<newline>''])"
    by simp
  have outcomes: "fst (download_youtube_videos_from_file sample_env ''urls.txt'' ''ffmpeg.exe'' [])
       = [Rejected TooManyTokens, Succeeded, Failed (External ''Video unavailable''), Succeeded]"
    unfolding sample_batch by simp
  have missing: "open_file sample_env ''missing.txt'' []
                   = Inl (External ''No such file or directory'')"
    by (simp add: sample_env_def)
  from batch_isolates_every_job
         [where E = sample_env and ff = "''ffmpeg.exe''" and file_path = "''missing.txt''"
            and h = "[]" and err = "External ''No such file or directory''"]
       missing
  have not_opened: "download_youtube_videos_from_file sample_env ''missing.txt'' ''ffmpeg.exe'' []
       = ([], Some (External ''No such file or directory''), [])"
    by blast
  have broken: "open_file sample_env ''broken.txt'' [] = Inr (Read_raises sample_decode_error)"
    by (simp add: sample_env_def)
  from batch_isolates_every_job
         [where E = sample_env and ff = "''ffmpeg.exe''" and file_path = "''broken.txt''"
            and h = "[]" and rs = "Read_raises sample_decode_error"]
       broken
  have not_read:
    "fst (snd (download_youtube_videos_from_file sample_env ''broken.txt'' ''ffmpeg.exe'' []))
       = read_error (Read_raises sample_decode_error)
     \<and> length (fst (download_youtube_videos_from_file sample_env ''broken.txt'' ''ffmpeg.exe'' []))
       = length (lines_read (Read_raises sample_decode_error))"
    by blast
  from opened returns outcomes p run failed missing not_opened broken not_read
  show ?thesis by blast
qed

end
